theory Spec2Isabelle
  imports Complex_Main "HOL-Library.Sublist" "HOL-Library.Log_Nat"
begin

section \<open>Python values and the exceptions of the fetcher and the renderer\<close>

text \<open>
  The three modules exchange plain Python objects: what \<^verbatim>\<open>response.json()\<close> decodes and
  what the functions build from it. A value is one of the constructors below. Python
  integers are unbounded (\<open>int\<close>); a dict keeps its items in insertion order, with string
  keys as JSON gives them. JSON numbers with a fraction or an exponent decode to floats;
  they have no constructor here, so the payloads of the model are the float-free ones.
  Strings are character lists.
\<close>

datatype pyval =
    PNone
  | PBool bool
  | PInt int
  | PStr string
  | PList "pyval list"
  | PTuple "pyval list"
  | PDict "(string \<times> pyval) list"

datatype error =
    TypeError
  | AttributeError
  | KeyError
  | ValueError
  | ZeroDivisionError
  | OverflowError
  | RequestException
  | JSONDecodeError

definition ebind :: "error + 'a \<Rightarrow> ('a \<Rightarrow> error + 'b) \<Rightarrow> error + 'b" where
  "ebind m f = (case m of Inl e \<Rightarrow> Inl e | Inr x \<Rightarrow> f x)"

text \<open>Truth value of an object, as \<^verbatim>\<open>if x:\<close>, \<^verbatim>\<open>not x\<close> and \<^verbatim>\<open>x or y\<close> test it.\<close>

fun truthy :: "pyval \<Rightarrow> bool" where
  "truthy PNone = False"
| "truthy (PBool b) = b"
| "truthy (PInt i) = (i \<noteq> 0)"
| "truthy (PStr s) = (s \<noteq> [])"
| "truthy (PList xs) = (xs \<noteq> [])"
| "truthy (PTuple xs) = (xs \<noteq> [])"
| "truthy (PDict d) = (d \<noteq> [])"

definition py_or :: "pyval \<Rightarrow> pyval \<Rightarrow> pyval" where
  "py_or a b = (if truthy a then a else b)"

text \<open>\<^verbatim>\<open>x.get(key, default)\<close>: only a dict has the method.\<close>

fun py_get :: "pyval \<Rightarrow> string \<Rightarrow> pyval \<Rightarrow> error + pyval" where
  "py_get (PDict d) k dflt = Inr (case map_of d k of None \<Rightarrow> dflt | Some v \<Rightarrow> v)"
| "py_get _ k dflt = Inl AttributeError"

text \<open>\<^verbatim>\<open>x[key]\<close> with a string key: KeyError on a dict without the key, TypeError on
  every other object (a list or a string wants an integer index, the rest is not
  subscriptable).\<close>

fun py_getitem :: "pyval \<Rightarrow> string \<Rightarrow> error + pyval" where
  "py_getitem (PDict d) k = (case map_of d k of None \<Rightarrow> Inl KeyError | Some v \<Rightarrow> Inr v)"
| "py_getitem _ k = Inl TypeError"

text \<open>Integer value of an \<^verbatim>\<open>int\<close> or a \<^verbatim>\<open>bool\<close> (a subclass of \<^verbatim>\<open>int\<close>) in arithmetic.\<close>

fun py_floordiv :: "pyval \<Rightarrow> int \<Rightarrow> error + int" where
  "py_floordiv (PInt i) n = (if n = 0 then Inl ZeroDivisionError else Inr (i div n))"
| "py_floordiv (PBool b) n =
     (if n = 0 then Inl ZeroDivisionError else Inr ((if b then 1 else 0) div n))"
| "py_floordiv _ n = Inl TypeError"

text \<open>\<^verbatim>\<open>x * n\<close> for a literal \<open>n\<close>: a number is multiplied, a sequence repeated.\<close>

fun py_mul :: "pyval \<Rightarrow> nat \<Rightarrow> error + pyval" where
  "py_mul (PInt i) n = Inr (PInt (i * int n))"
| "py_mul (PBool b) n = Inr (PInt ((if b then 1 else 0) * int n))"
| "py_mul (PStr s) n = Inr (PStr (concat (replicate n s)))"
| "py_mul (PList xs) n = Inr (PList (concat (replicate n xs)))"
| "py_mul (PTuple xs) n = Inr (PTuple (concat (replicate n xs)))"
| "py_mul _ n = Inl TypeError"

text \<open>\<^verbatim>\<open>max(a, b)\<close> with an integer \<open>a\<close>: \<open>b\<close> is returned when \<^verbatim>\<open>b > a\<close>, and the
  comparison of a non-number with an integer raises.\<close>

fun py_max :: "int \<Rightarrow> pyval \<Rightarrow> error + pyval" where
  "py_max a (PInt j) = Inr (if j > a then PInt j else PInt a)"
| "py_max a (PBool b) = Inr (if (if b then 1 else 0) > a then PBool b else PInt a)"
| "py_max a _ = Inl TypeError"

subsection \<open>\<^verbatim>\<open>collections.Counter\<close>\<close>

text \<open>
  A Counter is a dict from hashable keys to counts. Lists and dicts are unhashable; a
  tuple is hashable when its items are. Keys are compared with \<^verbatim>\<open>==\<close>, under which
  \<^verbatim>\<open>True == 1\<close> and \<^verbatim>\<open>False == 0\<close>. The items are kept in the order of first insertion,
  and a key found again keeps the object stored first.
\<close>

fun hashable :: "pyval \<Rightarrow> bool" where
  "hashable (PList xs) = False"
| "hashable (PDict d) = False"
| "hashable (PTuple xs) = (\<forall>x \<in> set xs. hashable x)"
| "hashable PNone = True"
| "hashable (PBool b) = True"
| "hashable (PInt i) = True"
| "hashable (PStr s) = True"

fun key_norm :: "pyval \<Rightarrow> pyval" where
  "key_norm (PBool b) = PInt (if b then 1 else 0)"
| "key_norm (PTuple xs) = PTuple (map key_norm xs)"
| "key_norm PNone = PNone"
| "key_norm (PInt i) = PInt i"
| "key_norm (PStr s) = PStr s"
| "key_norm (PList xs) = PList xs"
| "key_norm (PDict d) = PDict d"

definition key_eq :: "pyval \<Rightarrow> pyval \<Rightarrow> bool" where
  "key_eq a b = (key_norm a = key_norm b)"

type_synonym counter = "(pyval \<times> int) list"

fun counter_incr :: "counter \<Rightarrow> pyval \<Rightarrow> counter" where
  "counter_incr [] k = [(k, 1)]"
| "counter_incr ((k', n) # c) k =
     (if key_eq k' k then (k', n + 1) # c else (k', n) # counter_incr c k)"

text \<open>\<^verbatim>\<open>counts[key] += 1\<close>\<close>

definition counter_add :: "counter \<Rightarrow> pyval \<Rightarrow> error + counter" where
  "counter_add c k = (if hashable k then Inr (counter_incr c k) else Inl TypeError)"

text \<open>
  \<^verbatim>\<open>most_common(n)\<close> is \<^verbatim>\<open>heapq.nlargest(n, self.items(), key=itemgetter(1))\<close>, which the
  library documents as \<^verbatim>\<open>sorted(items, key=itemgetter(1), reverse=True)[:n]\<close>: a stable
  sort by descending count (items of equal count stay in insertion order), cut at \<open>n\<close>.
\<close>

definition most_common :: "nat \<Rightarrow> counter \<Rightarrow> (pyval \<times> int) list" where
  "most_common n c = take n (sort_key (\<lambda>kc. - snd kc) c)"

section \<open>The Stats Fetcher (\<^verbatim>\<open>utils/github_utils.py\<close>)\<close>

text \<open>
  The network is a parameter: for each URL what \<^verbatim>\<open>requests.get\<close> does (raise, or
  return a response), and for each user name and token what the graph-query
  \<^verbatim>\<open>requests.post\<close> does. A response has a status code and the outcome of its
  \<^verbatim>\<open>.json()\<close> call, which raises on a body that does not decode.
\<close>

record response =
  status_code :: int
  json :: "error + pyval"

record network =
  requests_get :: "string \<Rightarrow> error + response"
  requests_post :: "string \<Rightarrow> string \<Rightarrow> error + response"

definition GITHUB_API_BASE :: string where
  "GITHUB_API_BASE = ''https://api.github.com''"

text \<open>\<^verbatim>\<open>repos[:30]\<close>, then the iteration over the slice. A list is cut at 30 items, a
  string at 30 characters; a dict and every other object cannot be sliced (the
  exception is a TypeError, or on a dict a KeyError in recent Python versions: the
  handler treats them alike).\<close>

fun slice_iter :: "nat \<Rightarrow> pyval \<Rightarrow> error + pyval list" where
  "slice_iter n (PList xs) = Inr (take n xs)"
| "slice_iter n (PTuple xs) = Inr (take n xs)"
| "slice_iter n (PStr s) = Inr (map (\<lambda>c. PStr [c]) (take n s))"
| "slice_iter n _ = Inl TypeError"

text \<open>One pass of the loop body over a repository, on the pair of the language Counter
  and the running commit estimate.\<close>

definition scan_repo :: "pyval \<Rightarrow> counter \<times> int \<Rightarrow> error + counter \<times> int" where
  "scan_repo repo acc =
     (case acc of (language_counts, total_commits_estimate) \<Rightarrow>
      ebind (py_get repo ''language'' PNone) (\<lambda>language.
      ebind (if truthy language
             then ebind (py_getitem repo ''language'') (counter_add language_counts)
             else Inr language_counts) (\<lambda>language_counts'.
      ebind (py_get repo ''fork'' PNone) (\<lambda>fork.
      if \<not> truthy fork
      then ebind (py_get repo ''size'' (PInt 0)) (\<lambda>size.
           ebind (py_floordiv size 10) (\<lambda>q.
           Inr (language_counts', total_commits_estimate + q)))
      else Inr (language_counts', total_commits_estimate)))))"

fun scan_repos :: "pyval list \<Rightarrow> counter \<times> int \<Rightarrow> error + counter \<times> int" where
  "scan_repos [] acc = Inr acc"
| "scan_repos (repo # repos) acc = ebind (scan_repo repo acc) (scan_repos repos)"

definition lang_entry :: "pyval \<times> int \<Rightarrow> pyval" where
  "lang_entry kc = PDict [(''name'', fst kc), (''count'', PInt (snd kc))]"

definition build_profile :: "pyval \<Rightarrow> (pyval \<times> int) list \<Rightarrow> int \<Rightarrow> error + pyval" where
  "build_profile user_data top_languages total_commits_estimate =
     ebind (py_get user_data ''login'' PNone) (\<lambda>login.
     ebind (py_get user_data ''name'' PNone) (\<lambda>name.
     ebind (py_get user_data ''bio'' PNone) (\<lambda>bio.
     ebind (py_get user_data ''public_repos'' (PInt 0)) (\<lambda>public_repos.
     ebind (py_get user_data ''followers'' (PInt 0)) (\<lambda>followers.
     ebind (py_get user_data ''following'' (PInt 0)) (\<lambda>following.
     ebind (py_get user_data ''avatar_url'' PNone) (\<lambda>avatar_url.
     ebind (py_get user_data ''created_at'' PNone) (\<lambda>created_at.
     ebind (py_mul public_repos 5) (\<lambda>repo_floor.
     ebind (py_max total_commits_estimate repo_floor) (\<lambda>total_commits.
     Inr (PDict
       [(''username'', login),
        (''name'', py_or name login),
        (''bio'', bio),
        (''public_repos'', public_repos),
        (''followers'', followers),
        (''following'', following),
        (''avatar_url'', avatar_url),
        (''created_at'', created_at),
        (''top_languages'', PList (map lang_entry top_languages)),
        (''total_commits'', total_commits)])))))))))))"

text \<open>The body of the \<^verbatim>\<open>try\<close> block: \<open>Inr None\<close> is the early \<^verbatim>\<open>return None\<close>, \<open>Inl\<close> an
  exception on its way to the handler.\<close>

definition fetch_body :: "network \<Rightarrow> string \<Rightarrow> error + pyval option" where
  "fetch_body net username =
     ebind (requests_get net (GITHUB_API_BASE @ ''/users/'' @ username)) (\<lambda>user_response.
     if status_code user_response \<noteq> 200 then Inr None
     else
     ebind (json user_response) (\<lambda>user_data.
     ebind (requests_get net (GITHUB_API_BASE @ ''/users/'' @ username @ ''/repos''))
       (\<lambda>repos_response.
     ebind (if status_code repos_response \<noteq> 200 then Inr (PList [])
            else json repos_response) (\<lambda>repos.
     ebind (slice_iter 30 repos) (\<lambda>scanned.
     ebind (scan_repos scanned ([], 0)) (\<lambda>(language_counts, total_commits_estimate).
     ebind (build_profile user_data (most_common 5 language_counts) total_commits_estimate)
       (\<lambda>profile_data.
     Inr (Some profile_data))))))))"

text \<open>\<^verbatim>\<open>except Exception\<close> turns every exception of the body into \<^verbatim>\<open>None\<close>.\<close>

definition fetch_github_stats :: "network \<Rightarrow> string \<Rightarrow> pyval option" where
  "fetch_github_stats net username =
     (case fetch_body net username of Inl e \<Rightarrow> None | Inr r \<Rightarrow> r)"

subsection \<open>The graph-query path\<close>

text \<open>\<^verbatim>\<open>key in x\<close> for a string key: a key of a dict, an item of a list or tuple, a
  substring of a string; the other objects are not containers.\<close>

fun py_contains :: "string \<Rightarrow> pyval \<Rightarrow> error + bool" where
  "py_contains k (PDict d) = Inr (k \<in> fst ` set d)"
| "py_contains k (PList xs) = Inr (PStr k \<in> set xs)"
| "py_contains k (PTuple xs) = Inr (PStr k \<in> set xs)"
| "py_contains k (PStr s) = Inr (sublist k s)"
| "py_contains k _ = Inl TypeError"

text \<open>\<^verbatim>\<open>for x in xs\<close>: the items of a list or tuple, the characters of a string, the keys
  of a dict.\<close>

fun py_iter :: "pyval \<Rightarrow> error + pyval list" where
  "py_iter (PList xs) = Inr xs"
| "py_iter (PTuple xs) = Inr xs"
| "py_iter (PStr s) = Inr (map (\<lambda>c. PStr [c]) s)"
| "py_iter (PDict d) = Inr (map (\<lambda>kv. PStr (fst kv)) d)"
| "py_iter _ = Inl TypeError"

definition count_repo :: "pyval \<Rightarrow> counter \<Rightarrow> error + counter" where
  "count_repo repo language_counts =
     ebind (py_get repo ''primaryLanguage'' PNone) (\<lambda>primary.
     if truthy primary
     then ebind (py_getitem repo ''primaryLanguage'') (\<lambda>primaryLanguage.
          ebind (py_getitem primaryLanguage ''name'') (\<lambda>lang.
          counter_add language_counts lang))
     else Inr language_counts)"

fun count_repos :: "pyval list \<Rightarrow> counter \<Rightarrow> error + counter" where
  "count_repos [] language_counts = Inr language_counts"
| "count_repos (repo # repos) language_counts =
     ebind (count_repo repo language_counts) (count_repos repos)"

definition build_detailed :: "pyval \<Rightarrow> (pyval \<times> int) list \<Rightarrow> error + pyval" where
  "build_detailed user top_languages =
     ebind (py_getitem user ''login'') (\<lambda>login.
     ebind (py_getitem user ''name'') (\<lambda>name.
     ebind (py_getitem user ''bio'') (\<lambda>bio.
     ebind (py_getitem user ''avatarUrl'') (\<lambda>avatarUrl.
     ebind (py_getitem user ''repositories'') (\<lambda>repositories.
     ebind (py_getitem repositories ''totalCount'') (\<lambda>totalCount.
     ebind (py_getitem user ''contributionsCollection'') (\<lambda>contributionsCollection.
     ebind (py_getitem contributionsCollection ''totalCommitContributions'')
       (\<lambda>totalCommitContributions.
     Inr (PDict
       [(''username'', login),
        (''name'', py_or name login),
        (''bio'', bio),
        (''avatar_url'', avatarUrl),
        (''public_repos'', totalCount),
        (''total_commits'', totalCommitContributions),
        (''top_languages'', PList (map lang_entry top_languages))])))))))))"

text \<open>The body of the \<^verbatim>\<open>try\<close> block of \<^verbatim>\<open>fetch_github_stats_detailed\<close>; its two early
  returns hand over to the REST path.\<close>

definition detailed_body :: "network \<Rightarrow> string \<Rightarrow> string \<Rightarrow> error + pyval option" where
  "detailed_body net username github_token =
     ebind (requests_post net username github_token) (\<lambda>response.
     if status_code response \<noteq> 200 then Inr (fetch_github_stats net username)
     else
     ebind (json response) (\<lambda>data.
     ebind (py_contains ''errors'' data) (\<lambda>has_errors.
     if has_errors then Inr (fetch_github_stats net username)
     else
     ebind (py_getitem data ''data'') (\<lambda>payload.
     ebind (py_getitem payload ''user'') (\<lambda>user.
     ebind (py_getitem user ''repositories'') (\<lambda>repositories.
     ebind (py_getitem repositories ''nodes'') (\<lambda>repos.
     ebind (py_iter repos) (\<lambda>nodes.
     ebind (count_repos nodes []) (\<lambda>language_counts.
     ebind (build_detailed user (most_common 5 language_counts)) (\<lambda>profile_data.
     Inr (Some profile_data)))))))))))"

text \<open>A missing or empty token goes to the REST path at once; so does every exception
  of the body.\<close>

definition fetch_github_stats_detailed :: "network \<Rightarrow> string \<Rightarrow> string option \<Rightarrow> pyval option"
  where
  "fetch_github_stats_detailed net username github_token =
     (case github_token of
        None \<Rightarrow> fetch_github_stats net username
      | Some token \<Rightarrow>
          if token = [] then fetch_github_stats net username
          else (case detailed_body net username token of
                  Inl e \<Rightarrow> fetch_github_stats net username
                | Inr r \<Rightarrow> r))"

section \<open>The Card Renderer (\<^verbatim>\<open>generators/lang_card.py\<close>)\<close>

text \<open>
  The renderer takes two things from outside its source: the string method \<^verbatim>\<open>str.lower\<close>
  of Python, which follows the Unicode tables, and the \<^verbatim>\<open>svgwrite\<close> library. Both are
  parameters of the model, in the record \<open>runtime\<close> declared with the drawing below;
  \<open>str_lower\<close> is the method as a function on strings.
\<close>

subsection \<open>Numbers in the output\<close>

text \<open>The decimal text of an integer, as an f-string prints it.\<close>

definition digit_char :: "nat \<Rightarrow> char" where
  "digit_char d = char_of (48 + d)"

function str_nat :: "nat \<Rightarrow> string" where
  "str_nat n = (if n < 10 then [digit_char n] else str_nat (n div 10) @ [digit_char (n mod 10)])"
  by pat_completeness auto
termination
  by (relation "measure (\<lambda>n. n)") auto

declare str_nat.simps [simp del]

definition str_int :: "int \<Rightarrow> string" where
  "str_int i = (if i < 0 then CHR ''-'' # str_nat (nat (- i)) else str_nat (nat i))"

text \<open>
  The percentages and the bar widths are Python floats. A float is kept as the
  expression that computes it, from the integers it is computed from: \<open>IntDiv a b\<close> is
  the true division \<^verbatim>\<open>a / b\<close> of two integers, \<open>FMul x n\<close> is \<^verbatim>\<open>x * n\<close>, \<open>FDiv x n\<close> is
  \<^verbatim>\<open>x / n\<close> with an integer \<open>n\<close>, and \<open>FDec m k\<close> is the decimal literal \<open>m / 10 ^ k\<close>.
\<close>

datatype pyfloat =
    IntDiv int int
  | FMul pyfloat int
  | FDiv pyfloat int
  | FDec int nat

text \<open>
  A float is an IEEE 754 double. A finite double is given by its exact value, a
  rational number. Each operation returns the double nearest to the exact result,
  the even one of two at the same distance: doubles have 53 significant bits, so in
  the binade \<open>2 ^ e \<le> \<bar>x\<bar> < 2 ^ (e + 1)\<close> they are the multiples of \<open>2 ^ (e - 52)\<close>, and
  below \<open>2 ^ - 1022\<close> (the subnormal range) the multiples of \<open>2 ^ - 1074\<close>. A result of
  magnitude \<open>2 ^ 1024\<close> or more after rounding is not a finite double.
\<close>

definition pow2 :: "int \<Rightarrow> rat" where
  "pow2 k = 2 powi k"

text \<open>The binade of a positive rational: the \<open>e\<close> with \<open>2 ^ e \<le> x < 2 ^ (e + 1)\<close>.\<close>

definition binade :: "rat \<Rightarrow> int" where
  "binade x =
     (case quotient_of x of (p, q) \<Rightarrow>
        let d = bitlen p - bitlen q in if pow2 d \<le> x then d else d - 1)"

definition round_half_even :: "rat \<Rightarrow> int" where
  "round_half_even r =
     (let f = \<lfloor>r\<rfloor>; d = r - of_int f
      in if d < 1 / 2 then f else if 1 / 2 < d then f + 1 else if even f then f else f + 1)"

definition round_double :: "rat \<Rightarrow> rat" where
  "round_double x =
     (if x = 0 then 0
      else let quantum = pow2 (max (binade \<bar>x\<bar>) (- 1022) - 52)
           in of_int (round_half_even (x / quantum)) * quantum)"

definition finite_double :: "rat \<Rightarrow> rat option" where
  "finite_double r = (if \<bar>r\<bar> < 2 ^ 1024 then Some r else None)"

definition double_overflow :: "rat \<Rightarrow> bool" where
  "double_overflow x = (2 ^ 1024 \<le> \<bar>round_double x\<bar>)"

text \<open>The value of a float expression, \<open>None\<close> when it is not a finite double. An
  integer operand is converted to a double first.\<close>

fun float_value :: "pyfloat \<Rightarrow> rat option" where
  "float_value (IntDiv a b) =
     (if b = 0 then None else finite_double (round_double (of_int a / of_int b)))"
| "float_value (FMul x n) =
     (case float_value x of
        None \<Rightarrow> None
      | Some v \<Rightarrow>
          (case finite_double (round_double (of_int n)) of
             None \<Rightarrow> None
           | Some m \<Rightarrow> finite_double (round_double (v * m))))"
| "float_value (FDiv x n) =
     (case float_value x of
        None \<Rightarrow> None
      | Some v \<Rightarrow>
          (case finite_double (round_double (of_int n)) of
             None \<Rightarrow> None
           | Some m \<Rightarrow> if m = 0 then None else finite_double (round_double (v / m))))"
| "float_value (FDec m k) = finite_double (round_double (of_int m / 10 ^ k))"

text \<open>\<^verbatim>\<open>count / total_usage\<close>: both integers (a \<^verbatim>\<open>bool\<close> counts as one). Python raises
  ZeroDivisionError at a zero divisor and OverflowError when the quotient is too large
  for a double.\<close>

fun py_truediv :: "pyval \<Rightarrow> int \<Rightarrow> error + pyfloat" where
  "py_truediv (PInt c) t =
     (if t = 0 then Inl ZeroDivisionError
      else if double_overflow (of_int c / of_int t) then Inl OverflowError
      else Inr (IntDiv c t))"
| "py_truediv (PBool b) t =
     (if t = 0 then Inl ZeroDivisionError
      else if double_overflow (of_int (if b then 1 else 0) / of_int t) then Inl OverflowError
      else Inr (IntDiv (if b then 1 else 0) t))"
| "py_truediv _ t = Inl TypeError"

text \<open>\<^verbatim>\<open>acc + count\<close> with an integer \<open>acc\<close>, as \<^verbatim>\<open>sum\<close> adds.\<close>

fun py_add :: "int \<Rightarrow> pyval \<Rightarrow> error + int" where
  "py_add acc (PInt c) = Inr (acc + c)"
| "py_add acc (PBool b) = Inr (acc + (if b then 1 else 0))"
| "py_add acc _ = Inl TypeError"

fun py_len :: "pyval \<Rightarrow> error + nat" where
  "py_len (PList xs) = Inr (length xs)"
| "py_len (PTuple xs) = Inr (length xs)"
| "py_len (PStr s) = Inr (length s)"
| "py_len (PDict d) = Inr (length d)"
| "py_len _ = Inl TypeError"

text \<open>\<^verbatim>\<open>lang, count = item\<close>: the item is iterated and must give exactly two objects.\<close>

definition unpack2 :: "pyval \<Rightarrow> error + pyval \<times> pyval" where
  "unpack2 item =
     (case py_iter item of
        Inl e \<Rightarrow> Inl TypeError
      | Inr [a, b] \<Rightarrow> Inr (a, b)
      | Inr _ \<Rightarrow> Inl ValueError)"

subsection \<open>The drawing\<close>

text \<open>
  The drawing primitives belong to the \<^verbatim>\<open>svgwrite\<close> library. The model records each call
  as an element with the arguments it is given, in the order of the \<^verbatim>\<open>dwg.add\<close> calls.
\<close>

datatype attr = AInt int | AStr string | AVal pyval | AFloat pyfloat

datatype svg_len = Len int | LenStr string | LenFloat pyfloat

datatype content = Content pyval | Literal string | PctText pyfloat

datatype svg_element =
    Rect "int \<times> int" "svg_len \<times> svg_len" "(string \<times> attr) list"
  | Text content "int \<times> int" "(string \<times> attr) list"

record drawing =
  dwg_size :: "string \<times> string"
  viewBox :: string
  elements :: "svg_element list"

text \<open>
  The library validates what it is given and raises on a value it does not accept (a
  fill that is no colour, for one). What it accepts is the library's matter, so each
  call is a parameter: \<open>drawing_error\<close> is the exception of \<^verbatim>\<open>svgwrite.Drawing(size, viewBox)\<close>,
  \<open>element_error\<close> that of building an element with \<^verbatim>\<open>dwg.rect\<close> or \<^verbatim>\<open>dwg.text\<close> and adding
  it with \<^verbatim>\<open>dwg.add\<close>, \<open>tostring_error\<close> that of \<^verbatim>\<open>dwg.tostring()\<close>; \<open>None\<close> means that the call
  returns. The text that \<^verbatim>\<open>tostring\<close> returns is the library's; the model returns the
  drawing it is made from.
\<close>

record runtime =
  str_lower :: "string \<Rightarrow> string"
  drawing_error :: "string \<times> string \<Rightarrow> string \<Rightarrow> error option"
  element_error :: "svg_element \<Rightarrow> error option"
  tostring_error :: "drawing \<Rightarrow> error option"

definition svg_call :: "error option \<Rightarrow> 'a \<Rightarrow> error + 'a" where
  "svg_call outcome result = (case outcome of None \<Rightarrow> Inr result | Some e \<Rightarrow> Inl e)"

definition svg_add :: "runtime \<Rightarrow> svg_element \<Rightarrow> error + svg_element" where
  "svg_add rt element = svg_call (element_error rt element) element"

text \<open>\<^verbatim>\<open>lang.lower()\<close>: only a string has the method.\<close>

fun py_lower :: "runtime \<Rightarrow> pyval \<Rightarrow> error + string" where
  "py_lower rt (PStr s) = Inr (str_lower rt s)"
| "py_lower rt _ = Inl AttributeError"

type_synonym theme = "string \<rightharpoonup> pyval"

text \<open>\<^verbatim>\<open>theme[key]\<close>\<close>

definition theme_item :: "theme \<Rightarrow> string \<Rightarrow> error + pyval" where
  "theme_item theme k = (case theme k of None \<Rightarrow> Inl KeyError | Some v \<Rightarrow> Inr v)"

text \<open>
  \<^verbatim>\<open>THEMES.get(theme_name, THEMES["Default"]).copy()\<close>, updated with the custom colours
  when there are any. The table \<^verbatim>\<open>THEMES\<close> of \<^verbatim>\<open>themes/styles.py\<close> is a parameter. The default
  argument \<^verbatim>\<open>THEMES["Default"]\<close> is evaluated whether or not the name is found.
\<close>

definition resolve_theme ::
  "(string \<times> (string \<times> pyval) list) list \<Rightarrow> string \<Rightarrow> (string \<times> pyval) list option
     \<Rightarrow> error + theme" where
  "resolve_theme THEMES theme_name custom_colors =
     (case map_of THEMES ''Default'' of
        None \<Rightarrow> Inl KeyError
      | Some default_theme \<Rightarrow>
          (let theme = map_of (case map_of THEMES theme_name of
                                 None \<Rightarrow> default_theme
                               | Some named \<Rightarrow> named)
           in Inr (case custom_colors of
                     None \<Rightarrow> theme
                   | Some colors \<Rightarrow> if colors = [] then theme else theme ++ map_of colors)))"

text \<open>The list comprehension of the exclusion filter, item by item.\<close>

fun filter_langs :: "runtime \<Rightarrow> string list \<Rightarrow> pyval list \<Rightarrow> error + pyval list" where
  "filter_langs rt excluded_lower [] = Inr []"
| "filter_langs rt excluded_lower (item # items) =
     ebind (unpack2 item) (\<lambda>(lang, count).
     ebind (py_lower rt lang) (\<lambda>lowered.
     ebind (filter_langs rt excluded_lower items) (\<lambda>rest.
     Inr (if lowered \<notin> set excluded_lower then PTuple [lang, count] # rest else rest))))"

text \<open>Lines 20 to 34: the language list that is drawn.\<close>

definition select_langs :: "runtime \<Rightarrow> pyval \<Rightarrow> string list option \<Rightarrow> error + pyval" where
  "select_langs rt data excluded_languages =
     ebind (py_get data ''top_languages'' (PList [])) (\<lambda>langs.
     ebind (case excluded_languages of
              None \<Rightarrow> Inr langs
            | Some excluded \<Rightarrow>
                if excluded \<noteq> [] \<and> truthy langs
                then ebind (py_iter langs) (\<lambda>items.
                     ebind (filter_langs rt (map (str_lower rt) excluded) items) (\<lambda>kept.
                     Inr (PList kept)))
                else Inr langs) (\<lambda>langs.
     Inr (if \<not> truthy langs then PList [PTuple [PStr ''No Data'', PInt 0]] else langs)))"

text \<open>\<^verbatim>\<open>sum(count for _, count in langs)\<close>\<close>

fun sum_counts :: "pyval list \<Rightarrow> int \<Rightarrow> error + int" where
  "sum_counts [] acc = Inr acc"
| "sum_counts (item # items) acc =
     ebind (unpack2 item) (\<lambda>(lang, count).
     ebind (py_add acc count) (sum_counts items))"

definition width :: int where "width = 300"
definition item_height :: int where "item_height = 35"
definition header_height :: int where "header_height = 40"
definition start_y :: int where "start_y = 60"

text \<open>The four elements of one row of the loop, for the row index \<open>i\<close>. Each element is
  built and added before the arguments of the next one are evaluated; the second text
  reads the three theme entries that the first has read.\<close>

definition draw_row ::
  "runtime \<Rightarrow> theme \<Rightarrow> int \<Rightarrow> int \<Rightarrow> pyval \<Rightarrow> pyval \<Rightarrow> error + svg_element list" where
  "draw_row rt theme total_usage i lang count =
     (let y = start_y + i * item_height in
      ebind (py_truediv count total_usage) (\<lambda>ratio.
      let pct = FMul ratio 100 in
      ebind (theme_item theme ''text_color'') (\<lambda>text_color.
      ebind (theme_item theme ''text_font_size'') (\<lambda>text_font_size.
      ebind (theme_item theme ''font_family'') (\<lambda>font_family.
      ebind (svg_add rt
               (Text (Content lang) (20, y)
                  [(''fill'', AVal text_color), (''font_size'', AVal text_font_size),
                   (''font_family'', AVal font_family)])) (\<lambda>label.
      ebind (svg_add rt
               (Text (PctText pct) (width - 20, y)
                  [(''fill'', AVal text_color), (''font_size'', AVal text_font_size),
                   (''font_family'', AVal font_family), (''text_anchor'', AStr ''end'')]))
        (\<lambda>percentage.
      let bar_y = y + 5; bar_width = width - 40 in
      ebind (theme_item theme ''border_color'') (\<lambda>border_color.
      ebind (svg_add rt
               (Rect (20, bar_y) (Len bar_width, Len 6)
                  [(''rx'', AInt 3), (''ry'', AInt 3), (''fill'', AVal border_color),
                   (''opacity'', AFloat (FDec 3 1))])) (\<lambda>track.
      let fill_width = FMul (FDiv pct 100) bar_width in
      ebind (theme_item theme ''title_color'') (\<lambda>bar_color.
      ebind (svg_add rt
               (Rect (20, bar_y) (LenFloat fill_width, Len 6)
                  [(''rx'', AInt 3), (''ry'', AInt 3), (''fill'', AVal bar_color)])) (\<lambda>bar.
      Inr [label, percentage, track, bar])))))))))))"

text \<open>\<^verbatim>\<open>for i, (lang, count) in enumerate(langs)\<close>\<close>

fun draw_rows ::
  "runtime \<Rightarrow> theme \<Rightarrow> int \<Rightarrow> nat \<Rightarrow> pyval list \<Rightarrow> error + svg_element list" where
  "draw_rows rt theme total_usage i [] = Inr []"
| "draw_rows rt theme total_usage i (item # items) =
     ebind (unpack2 item) (\<lambda>(lang, count).
     ebind (draw_row rt theme total_usage (int i) lang count) (\<lambda>row.
     ebind (draw_rows rt theme total_usage (Suc i) items) (\<lambda>rest.
     Inr (row @ rest))))"

definition draw_lang_card ::
  "runtime \<Rightarrow> (string \<times> (string \<times> pyval) list) list \<Rightarrow> pyval \<Rightarrow> string
     \<Rightarrow> (string \<times> pyval) list option \<Rightarrow> string list option \<Rightarrow> error + drawing" where
  "draw_lang_card rt THEMES data theme_name custom_colors excluded_languages =
     ebind (resolve_theme THEMES theme_name custom_colors) (\<lambda>theme.
     ebind (select_langs rt data excluded_languages) (\<lambda>langs.
     ebind (py_len langs) (\<lambda>n.
     let height = header_height + int n * item_height + 10;
         card_size = (''100%'', ''100%'');
         view_box = ''0 0 '' @ str_int width @ '' '' @ str_int height in
     ebind (svg_call (drawing_error rt card_size view_box) ()) (\<lambda>created.
     ebind (theme_item theme ''bg_color'') (\<lambda>bg_color.
     ebind (theme_item theme ''border_color'') (\<lambda>border_color.
     ebind (svg_add rt
              (Rect (0, 0) (LenStr ''100%'', LenStr ''100%'')
                 [(''rx'', AInt 10), (''ry'', AInt 10), (''fill'', AVal bg_color),
                  (''stroke'', AVal border_color), (''stroke_width'', AInt 2)])) (\<lambda>background.
     ebind (theme_item theme ''title_color'') (\<lambda>title_color.
     ebind (theme_item theme ''title_font_size'') (\<lambda>title_font_size.
     ebind (theme_item theme ''font_family'') (\<lambda>font_family.
     ebind (svg_add rt
              (Text (Literal ''Top Languages'') (20, 30)
                 [(''fill'', AVal title_color), (''font_size'', AVal title_font_size),
                  (''font_family'', AVal font_family), (''font_weight'', AStr ''bold'')]))
       (\<lambda>title.
     ebind (py_iter langs) (\<lambda>items.
     ebind (sum_counts items 0) (\<lambda>total.
     let total_usage = (if total = 0 then 1 else total) in
     ebind (draw_rows rt theme total_usage 0 items) (\<lambda>rows.
     let dwg = \<lparr> dwg_size = card_size, viewBox = view_box,
                 elements = [background, title] @ rows \<rparr> in
     ebind (svg_call (tostring_error rt dwg) ()) (\<lambda>serialised.
     Inr dwg)))))))))))))))"

section \<open>The Roast Widget (\<^verbatim>\<open>roast_widget_streamlit.py\<close>)\<close>

text \<open>
  The session state holds \<^verbatim>\<open>roast_data\<close> (\<open>None\<close> while the key is not in the session
  yet); the messages given to \<^verbatim>\<open>st.error\<close> are collected in the order they are shown.
  The roast collaborator \<^verbatim>\<open>generate_profile_roast\<close> of \<^verbatim>\<open>ai/ai_roast_service.py\<close> is a
  parameter: it raises or returns an object. The model covers the generate button;
  the display below it, with its own buttons, reads the session and is a separate
  action.
\<close>

datatype ui_message =
    FetchFailed
  | GenerationError error

record session =
  roast_data :: "pyval option"
  shown :: "ui_message list"

definition init_session :: "session \<Rightarrow> session" where
  "init_session st = (case roast_data st of None \<Rightarrow> st\<lparr>roast_data := Some PNone\<rparr> | Some r \<Rightarrow> st)"

text \<open>The \<^verbatim>\<open>try\<close> block under the generate button, up to the assignment.\<close>

definition generate_body ::
  "(pyval \<Rightarrow> error + pyval) \<Rightarrow> pyval \<Rightarrow> error + pyval" where
  "generate_body generate_profile_roast profile_data =
     ebind (generate_profile_roast profile_data) (\<lambda>roast_result.
     ebind (py_getitem roast_result ''roast'') (\<lambda>roast.
     ebind (py_getitem roast_result ''source'') (\<lambda>source.
     Inr (PDict [(''roast'', roast), (''profile'', profile_data), (''source'', source)]))))"

text \<open>What a press of the generate button does to the session, for any fetch
  function.\<close>

definition generate_clicked ::
  "(string \<Rightarrow> error + pyval option) \<Rightarrow> (pyval \<Rightarrow> error + pyval) \<Rightarrow> string \<Rightarrow> session
     \<Rightarrow> session" where
  "generate_clicked fetch generate_profile_roast username st =
     (case fetch username of
        Inl e \<Rightarrow> st\<lparr>shown := shown st @ [GenerationError e]\<rparr>
      | Inr None \<Rightarrow> st\<lparr>shown := shown st @ [FetchFailed]\<rparr>
      | Inr (Some profile_data) \<Rightarrow>
          if truthy profile_data
          then (case generate_body generate_profile_roast profile_data of
                  Inl e \<Rightarrow> st\<lparr>shown := shown st @ [GenerationError e]\<rparr>
                | Inr cached \<Rightarrow> st\<lparr>roast_data := Some cached\<rparr>)
          else st\<lparr>shown := shown st @ [FetchFailed]\<rparr>)"

text \<open>The widget up to the display: the session is initialised, then the button is
  handled, with \<^verbatim>\<open>fetch_github_stats\<close> as the fetch function.\<close>

definition render_roast_widget ::
  "network \<Rightarrow> (pyval \<Rightarrow> error + pyval) \<Rightarrow> string \<Rightarrow> bool \<Rightarrow> session \<Rightarrow> session" where
  "render_roast_widget net generate_profile_roast username clicked st =
     (let st' = init_session st in
      if clicked
      then generate_clicked (\<lambda>u. Inr (fetch_github_stats net u)) generate_profile_roast username st'
      else st')"

section \<open>Notions of the specification\<close>

subsection \<open>Profile records\<close>

text \<open>The fields of the Profile Record of the data model, in the order the REST path
  builds them.\<close>

definition profile_fields :: "string list" where
  "profile_fields =
     [''username'', ''name'', ''bio'', ''public_repos'', ''followers'', ''following'',
      ''avatar_url'', ''created_at'', ''top_languages'', ''total_commits'']"

fun dict_keys :: "pyval \<Rightarrow> string list" where
  "dict_keys (PDict d) = map fst d"
| "dict_keys _ = []"

text \<open>The counts of a \<open>top_languages\<close> sequence, when each entry has an integer count.\<close>

definition entry_count :: "pyval \<Rightarrow> int option" where
  "entry_count e = (case py_getitem e ''count'' of Inr (PInt c) \<Rightarrow> Some c | _ \<Rightarrow> None)"

fun counts_of :: "pyval list \<Rightarrow> int list option" where
  "counts_of [] = Some []"
| "counts_of (e # es) =
     (case entry_count e of
        None \<Rightarrow> None
      | Some c \<Rightarrow> (case counts_of es of None \<Rightarrow> None | Some cs \<Rightarrow> Some (c # cs)))"

subsection \<open>The two REST calls and the commit estimate\<close>

definition user_url :: "string \<Rightarrow> string" where
  "user_url username = GITHUB_API_BASE @ ''/users/'' @ username"

definition repos_url :: "string \<Rightarrow> string" where
  "repos_url username = GITHUB_API_BASE @ ''/users/'' @ username @ ''/repos''"

definition is_fork :: "pyval \<Rightarrow> bool" where
  "is_fork repo = (case py_get repo ''fork'' PNone of Inr f \<Rightarrow> truthy f | Inl e \<Rightarrow> False)"

text \<open>The size of a repository, 0 when the field is missing.\<close>

definition size_of :: "pyval \<Rightarrow> int" where
  "size_of repo =
     (case py_get repo ''size'' (PInt 0) of
        Inr (PInt i) \<Rightarrow> i
      | Inr (PBool b) \<Rightarrow> (if b then 1 else 0)
      | _ \<Rightarrow> 0)"

definition public_repos_of :: "pyval \<Rightarrow> int" where
  "public_repos_of user_data =
     (case py_get user_data ''public_repos'' (PInt 0) of
        Inr (PInt i) \<Rightarrow> i
      | Inr (PBool b) \<Rightarrow> (if b then 1 else 0)
      | _ \<Rightarrow> 0)"

text \<open>The sum, over the first 30 repositories that are not forks, of \<open>size div 10\<close>.\<close>

definition size_estimate :: "pyval list \<Rightarrow> int" where
  "size_estimate repos =
     sum_list (map (\<lambda>repo. size_of repo div 10)
                 (filter (\<lambda>repo. \<not> is_fork repo) (take 30 repos)))"

subsection \<open>Failures of the basic fetch\<close>













subsection \<open>Case-insensitive matching and the rows of a card\<close>

text \<open>
  On text of ASCII characters \<^verbatim>\<open>str.lower\<close> moves the letters \<open>A\<close> to \<open>Z\<close> to \<open>a\<close> to \<open>z\<close> and
  leaves every other character. The language names of the hosting service are such
  text.
\<close>

definition is_upper :: "char \<Rightarrow> bool" where
  "is_upper c = (65 \<le> (of_char c :: nat) \<and> (of_char c :: nat) \<le> 90)"

definition ascii_lower_char :: "char \<Rightarrow> char" where
  "ascii_lower_char c = (if is_upper c then char_of ((of_char c :: nat) + 32) else c)"

definition ascii_lower :: "string \<Rightarrow> string" where
  "ascii_lower s = map ascii_lower_char s"

definition ascii_text :: "string \<Rightarrow> bool" where
  "ascii_text s = list_all (\<lambda>c. (of_char c :: nat) < 128) s"

definition folds_ascii :: "runtime \<Rightarrow> bool" where
  "folds_ascii rt = (\<forall>s. ascii_text s \<longrightarrow> str_lower rt s = ascii_lower s)"

text \<open>Two characters are the same letter when they are equal, or one is an upper-case
  letter and the other the lower-case letter 32 places after it. Two names match, letter
  case apart, when they have the same letters in the same places.\<close>

definition same_letter :: "char \<Rightarrow> char \<Rightarrow> bool" where
  "same_letter c d =
     (c = d \<or> (is_upper c \<and> (of_char d :: nat) = of_char c + 32)
            \<or> (is_upper d \<and> (of_char c :: nat) = of_char d + 32))"

definition ci_match :: "string \<Rightarrow> string \<Rightarrow> bool" where
  "ci_match a b = list_all2 same_letter a b"

definition excluded_ci :: "string list \<Rightarrow> string \<Rightarrow> bool" where
  "excluded_ci excluded name = list_ex (ci_match name) excluded"

text \<open>The pairs that remain after exclusion: those whose name matches no excluded
  entry. The pairs that are shown: the remaining ones, or the placeholder when none
  remains.\<close>

definition kept_pairs :: "string list \<Rightarrow> (string \<times> int) list \<Rightarrow> (string \<times> int) list" where
  "kept_pairs excluded pairs = filter (\<lambda>nc. \<not> excluded_ci excluded (fst nc)) pairs"

definition shown_pairs :: "string list \<Rightarrow> (string \<times> int) list \<Rightarrow> (string \<times> int) list" where
  "shown_pairs excluded pairs =
     (if kept_pairs excluded pairs = [] then [(''No Data'', 0)] else kept_pairs excluded pairs)"

definition exclusions :: "string list option \<Rightarrow> string list" where
  "exclusions excluded_languages =
     (case excluded_languages of None \<Rightarrow> [] | Some excluded \<Rightarrow> excluded)"

text \<open>A language list of \<open>(name, count)\<close> pairs, as the renderer unpacks it.\<close>

definition lang_pair :: "string \<times> int \<Rightarrow> pyval" where
  "lang_pair nc = PTuple [PStr (fst nc), PInt (snd nc)]"

definition lang_list :: "(string \<times> int) list \<Rightarrow> pyval" where
  "lang_list pairs = PList (map lang_pair pairs)"

text \<open>The seven style attributes the renderer reads from the resolved theme.\<close>

definition theme_attributes :: "string list" where
  "theme_attributes =
     [''bg_color'', ''border_color'', ''title_color'', ''title_font_size'', ''font_family'',
      ''text_color'', ''text_font_size'']"

definition theme_complete ::
  "(string \<times> (string \<times> pyval) list) list \<Rightarrow> string \<Rightarrow> (string \<times> pyval) list option \<Rightarrow> bool"
  where
  "theme_complete THEMES theme_name custom_colors =
     (case resolve_theme THEMES theme_name custom_colors of
        Inl e \<Rightarrow> False
      | Inr theme \<Rightarrow> list_all (\<lambda>k. theme k \<noteq> None) theme_attributes)"

text \<open>
  The library accepts a drawing when it raises neither for its size and view box, nor
  for one of its elements, nor when it writes it out. It accepts the card of a call when
  it accepts the drawing that the renderer hands to it: the one that the call builds
  when no library call raises (\<open>lenient\<close>). A call that builds no drawing leaves nothing
  to accept.
\<close>

definition svg_accepts :: "runtime \<Rightarrow> drawing \<Rightarrow> bool" where
  "svg_accepts rt dwg =
     (drawing_error rt (dwg_size dwg) (viewBox dwg) = None
      \<and> list_all (\<lambda>element. element_error rt element = None) (elements dwg)
      \<and> tostring_error rt dwg = None)"

definition lenient :: "runtime \<Rightarrow> runtime" where
  "lenient rt =
     \<lparr> str_lower = str_lower rt,
       drawing_error = (\<lambda>card_size view_box. None),
       element_error = (\<lambda>element. None),
       tostring_error = (\<lambda>dwg. None) \<rparr>"

definition library_accepts ::
  "runtime \<Rightarrow> (string \<times> (string \<times> pyval) list) list \<Rightarrow> pyval \<Rightarrow> string
     \<Rightarrow> (string \<times> pyval) list option \<Rightarrow> string list option \<Rightarrow> bool" where
  "library_accepts rt THEMES data theme_name custom_colors excluded_languages =
     (case draw_lang_card (lenient rt) THEMES data theme_name custom_colors excluded_languages of
        Inl e \<Rightarrow> True
      | Inr dwg \<Rightarrow> svg_accepts rt dwg)"

text \<open>The rows of a drawing: after the background and the title, each row is a label,
  a percentage text, a track and a bar. A row is read as the label, the percentage
  and the bar width.\<close>

fun rows_of :: "svg_element list \<Rightarrow> (content \<times> pyfloat \<times> svg_len) list" where
  "rows_of (Text label p1 a1 # Text (PctText pct) p2 a2 # Rect p3 s3 a3 # Rect p4 (w, h) a4 # es) =
     (label, pct, w) # rows_of es"
| "rows_of es = []"

definition card_rows :: "drawing \<Rightarrow> (content \<times> pyfloat \<times> svg_len) list" where
  "card_rows dwg = rows_of (drop 2 (elements dwg))"

text \<open>The divisor of the percentages, and the row a pair is drawn as: its name, the
  percentage \<^verbatim>\<open>(count / total_usage) * 100\<close> and the bar width
  \<^verbatim>\<open>(pct / 100) * 260\<close>.\<close>

definition total_usage_of :: "(string \<times> int) list \<Rightarrow> int" where
  "total_usage_of pairs =
     (if sum_list (map snd pairs) = 0 then 1 else sum_list (map snd pairs))"

definition pct_of :: "int \<Rightarrow> int \<Rightarrow> pyfloat" where
  "pct_of count total_usage = FMul (IntDiv count total_usage) 100"

definition bar_of :: "int \<Rightarrow> int \<Rightarrow> pyfloat" where
  "bar_of count total_usage = FMul (FDiv (pct_of count total_usage) 100) 260"

definition row_of_pair :: "int \<Rightarrow> string \<times> int \<Rightarrow> content \<times> pyfloat \<times> svg_len" where
  "row_of_pair total_usage nc =
     (Content (PStr (fst nc)), pct_of (snd nc) total_usage,
      LenFloat (bar_of (snd nc) total_usage))"

text \<open>No quotient \<^verbatim>\<open>count / total_usage\<close> of the list is too large for a double.\<close>

definition counts_fit :: "(string \<times> int) list \<Rightarrow> bool" where
  "counts_fit pairs =
     list_all (\<lambda>nc. \<not> double_overflow (of_int (snd nc) / of_int (total_usage_of pairs))) pairs"

text \<open>The percentages of a card, as values, and their sum: \<open>None\<close> when there is no
  card or a percentage is not a finite double.\<close>

fun sum_values :: "rat option list \<Rightarrow> rat option" where
  "sum_values [] = Some 0"
| "sum_values (v # vs) =
     (case v of
        None \<Rightarrow> None
      | Some x \<Rightarrow> (case sum_values vs of None \<Rightarrow> None | Some s \<Rightarrow> Some (x + s)))"

definition card_percentages :: "drawing \<Rightarrow> rat option list" where
  "card_percentages dwg = map (\<lambda>row. float_value (fst (snd row))) (card_rows dwg)"

definition percentage_sum :: "error + drawing \<Rightarrow> rat option" where
  "percentage_sum result =
     (case result of Inl e \<Rightarrow> None | Inr dwg \<Rightarrow> sum_values (card_percentages dwg))"

section \<open>Example inputs\<close>

text \<open>The example of the specification: two Go repositories and a forked Python one,
  for a user with two public repositories.\<close>

definition example_user :: pyval where
  "example_user = PDict [(''login'', PStr ''octo''), (''public_repos'', PInt 2)]"

definition example_repos :: "pyval list" where
  "example_repos =
     [PDict [(''language'', PStr ''Go''), (''fork'', PBool False), (''size'', PInt 100)],
      PDict [(''language'', PStr ''Go''), (''fork'', PBool False), (''size'', PInt 50)],
      PDict [(''language'', PStr ''Python''), (''fork'', PBool True), (''size'', PInt 40)]]"

definition example_net :: network where
  "example_net =
     \<lparr> requests_get = (\<lambda>url.
         if url = ''https://api.github.com/users/octo''
         then Inr \<lparr> status_code = 200, json = Inr example_user \<rparr>
         else if url = ''https://api.github.com/users/octo/repos''
         then Inr \<lparr> status_code = 200, json = Inr (PList example_repos) \<rparr>
         else Inr \<lparr> status_code = 404, json = Inl JSONDecodeError \<rparr>),
       requests_post = (\<lambda>username token. Inl RequestException) \<rparr>"

definition example_profile :: pyval where
  "example_profile =
     PDict
       [(''username'', PStr ''octo''),
        (''name'', PStr ''octo''),
        (''bio'', PNone),
        (''public_repos'', PInt 2),
        (''followers'', PInt 0),
        (''following'', PInt 0),
        (''avatar_url'', PNone),
        (''created_at'', PNone),
        (''top_languages'',
           PList [PDict [(''name'', PStr ''Go''), (''count'', PInt 2)],
                  PDict [(''name'', PStr ''Python''), (''count'', PInt 1)]]),
        (''total_commits'', PInt 15)]"




text \<open>A successful graph query for the same user.\<close>

definition graph_user :: pyval where
  "graph_user =
     PDict
       [(''login'', PStr ''octo''),
        (''name'', PStr ''Octo Cat''),
        (''bio'', PNone),
        (''avatarUrl'', PStr ''https://avatars.example/octo''),
        (''repositories'',
           PDict [(''totalCount'', PInt 2),
                  (''nodes'',
                     PList [PDict [(''name'', PStr ''a''),
                                   (''primaryLanguage'', PDict [(''name'', PStr ''Go'')])],
                            PDict [(''name'', PStr ''b''), (''primaryLanguage'', PNone)]])]),
        (''contributionsCollection'', PDict [(''totalCommitContributions'', PInt 7)])]"

definition graph_net :: network where
  "graph_net =
     \<lparr> requests_get = requests_get example_net,
       requests_post = (\<lambda>username token.
         Inr \<lparr> status_code = 200,
               json = Inr (PDict [(''data'', PDict [(''user'', graph_user)])]) \<rparr>) \<rparr>"

definition graph_profile :: pyval where
  "graph_profile =
     PDict
       [(''username'', PStr ''octo''),
        (''name'', PStr ''Octo Cat''),
        (''bio'', PNone),
        (''avatar_url'', PStr ''https://avatars.example/octo''),
        (''public_repos'', PInt 2),
        (''total_commits'', PInt 7),
        (''top_languages'', PList [PDict [(''name'', PStr ''Go''), (''count'', PInt 1)]])]"

text \<open>A theme table with the seven attributes under the name \<open>Default\<close>; the table of
  the repository is not among the sources.\<close>

definition sample_THEMES :: "(string \<times> (string \<times> pyval) list) list" where
  "sample_THEMES =
     [(''Default'',
        [(''bg_color'', PStr ''#0d1117''),
         (''border_color'', PStr ''#30363d''),
         (''title_color'', PStr ''#58a6ff''),
         (''text_color'', PStr ''#c9d1d9''),
         (''font_family'', PStr ''Segoe UI''),
         (''title_font_size'', PInt 18),
         (''text_font_size'', PInt 14)])]"

text \<open>A runtime for ASCII text whose library accepts every drawing, and one whose
  library refuses the word \<open>transparent\<close> as the fill of a rectangle.\<close>

definition plain_runtime :: runtime where
  "plain_runtime =
     \<lparr> str_lower = ascii_lower,
       drawing_error = (\<lambda>card_size view_box. None),
       element_error = (\<lambda>element. None),
       tostring_error = (\<lambda>dwg. None) \<rparr>"

fun refuses_transparent :: "svg_element \<Rightarrow> error option" where
  "refuses_transparent (Rect pos dims attrs) =
     (if map_of attrs ''fill'' = Some (AVal (PStr ''transparent'')) then Some TypeError else None)"
| "refuses_transparent (Text body pos attrs) = None"

definition strict_runtime :: runtime where
  "strict_runtime =
     \<lparr> str_lower = ascii_lower,
       drawing_error = (\<lambda>card_size view_box. None),
       element_error = refuses_transparent,
       tostring_error = (\<lambda>dwg. None) \<rparr>"

text \<open>A language list of pairs, as the renderer unpacks it, inside a data dict.\<close>

definition example_pairs :: "(string \<times> int) list" where
  "example_pairs = [(''python'', 3), (''Go'', 1)]"

definition example_card_data :: pyval where
  "example_card_data = PDict [(''top_languages'', lang_list example_pairs)]"

text \<open>Three languages with one repository each.\<close>

definition thirds :: "(string \<times> int) list" where
  "thirds = [(''C'', 1), (''Go'', 1), (''Rust'', 1)]"

definition thirds_data :: pyval where
  "thirds_data = PDict [(''top_languages'', lang_list thirds)]"

text \<open>A roast collaborator that answers, and one that raises.\<close>

definition canned_roast :: "pyval \<Rightarrow> error + pyval" where
  "canned_roast profile = Inr (PDict [(''roast'', PStr ''Nice forks.''), (''source'', PStr ''fallback'')])"

definition failing_roast :: "pyval \<Rightarrow> error + pyval" where
  "failing_roast profile = Inl RequestException"

definition cached_session :: session where
  "cached_session =
     \<lparr> roast_data = Some (PDict [(''roast'', PStr ''Old roast.''), (''profile'', example_profile),
                                (''source'', PStr ''fallback'')]),
       shown = [] \<rparr>"

section \<open>Properties of the Stats Fetcher\<close>

subsection \<open>Exceptions on their way through a block\<close>

lemma ebind_Inr [simp]: "ebind (Inr x) f = f x"
  by (simp add: ebind_def)

lemma ebind_Inl [simp]: "ebind (Inl e) f = Inl e"
  by (simp add: ebind_def)

lemma ebind_eq_Inr: "ebind m f = Inr y \<longleftrightarrow> (\<exists>x. m = Inr x \<and> f x = Inr y)"
  by (cases m) simp_all

lemma ebind_eq_Inl: "ebind m f = Inl e \<longleftrightarrow> m = Inl e \<or> (\<exists>x. m = Inr x \<and> f x = Inl e)"
  by (cases m) simp_all

subsection \<open>The five most common languages\<close>


lemma most_common_length: "length (most_common n c) \<le> n"
  by (simp add: most_common_def)

lemma most_common_sorted: "sorted_wrt (\<lambda>a b. snd b \<le> snd a) (most_common n c)"
proof -
  have "sorted (map (\<lambda>kc. - snd kc) (sort_key (\<lambda>kc. - snd kc) c))"
    by (rule sorted_sort_key)
  then have "sorted_wrt (\<lambda>a b. snd b \<le> snd a) (sort_key (\<lambda>kc. - snd kc) c)"
    by (simp add: sorted_map)
  then show ?thesis
    unfolding most_common_def by (rule sorted_wrt_take)
qed

lemma counts_of_entries: "counts_of (map lang_entry tops) = Some (map snd tops)"
  by (induction tops) (simp_all add: lang_entry_def entry_count_def)


lemma build_profile_top:
  "build_profile user_data tops est = Inr r \<Longrightarrow>
   py_getitem r ''top_languages'' = Inr (PList (map lang_entry tops))"
  by (auto simp: build_profile_def ebind_eq_Inr)

lemma build_detailed_top:
  "build_detailed user tops = Inr r \<Longrightarrow>
   py_getitem r ''top_languages'' = Inr (PList (map lang_entry tops))"
  by (auto simp: build_detailed_def ebind_eq_Inr)

lemma fetch_github_stats_top:
  assumes "fetch_github_stats net username = Some profile"
  shows "\<exists>c. py_getitem profile ''top_languages'' = Inr (PList (map lang_entry (most_common 5 c)))"
  using assms
  by (auto simp: fetch_github_stats_def fetch_body_def ebind_eq_Inr
      split: sum.splits if_splits dest: build_profile_top)

lemma detailed_top:
  assumes "fetch_github_stats_detailed net username tok = Some profile"
  shows "\<exists>c. py_getitem profile ''top_languages'' = Inr (PList (map lang_entry (most_common 5 c)))"
proof (cases "fetch_github_stats net username = Some profile")
  case True
  then show ?thesis by (rule fetch_github_stats_top)
next
  case False
  with assms obtain token where "detailed_body net username token = Inr (Some profile)"
    by (auto simp: fetch_github_stats_detailed_def split: option.splits if_splits sum.splits)
  with False show ?thesis
    by (auto simp: detailed_body_def ebind_eq_Inr split: if_splits dest: build_detailed_top)
qed

lemma five_sorted_entries:
  assumes "py_getitem profile ''top_languages'' = Inr (PList (map lang_entry (most_common 5 c)))"
  shows "\<exists>es cs. py_getitem profile ''top_languages'' = Inr (PList es) \<and> length es \<le> 5 \<and>
           counts_of es = Some cs \<and> sorted_wrt (\<lambda>a b. b \<le> a) cs"
proof -
  let ?tops = "most_common 5 c"
  have "sorted_wrt (\<lambda>a b. b \<le> a) (map snd ?tops)"
    using most_common_sorted [of 5 c] by (simp add: sorted_wrt_map)
  moreover have "length (map lang_entry ?tops) \<le> 5"
    using most_common_length [of 5 c] by simp
  ultimately show ?thesis
    using assms counts_of_entries [of ?tops] by blast
qed

lemma example_fetch: "fetch_github_stats example_net ''octo'' = Some example_profile"
  by (simp add: fetch_github_stats_def fetch_body_def example_net_def GITHUB_API_BASE_def
      example_user_def example_repos_def scan_repo_def counter_add_def key_eq_def
      most_common_def build_profile_def lang_entry_def py_or_def example_profile_def)

lemma graph_fetch:
  "fetch_github_stats_detailed graph_net ''octo'' (Some ''token'') = Some graph_profile"
  by (simp add: fetch_github_stats_detailed_def detailed_body_def graph_net_def graph_user_def
      count_repo_def counter_add_def most_common_def build_detailed_def lang_entry_def py_or_def
      graph_profile_def)

text \<open>
  Claim C4. Whatever the repository list, the \<open>top_languages\<close> of a record returned by
  the basic fetch or by the detailed fetch is a sequence of at most 5 entries, and the
  counts of its entries are in non-increasing order.
\<close>

theorem top_languages_at_most_five_descending:
  assumes "fetch_github_stats net username = Some profile
         \<or> fetch_github_stats_detailed net username github_token = Some profile"
  shows "\<exists>es cs. py_getitem profile ''top_languages'' = Inr (PList es) \<and> length es \<le> 5 \<and>
           counts_of es = Some cs \<and> sorted_wrt (\<lambda>a b. b \<le> a) cs"
  using assms fetch_github_stats_top detailed_top five_sorted_entries by blast

theorem top_languages_at_most_five_descending_witness:
  "fetch_github_stats example_net ''octo'' = Some example_profile
   \<and> (\<exists>es cs. py_getitem example_profile ''top_languages'' = Inr (PList es) \<and> length es \<le> 5 \<and>
           counts_of es = Some cs \<and> sorted_wrt (\<lambda>a b. b \<le> a) cs)
   \<and> fetch_github_stats_detailed graph_net ''octo'' (Some ''token'') = Some graph_profile
   \<and> (\<exists>es cs. py_getitem graph_profile ''top_languages'' = Inr (PList es) \<and> length es \<le> 5 \<and>
           counts_of es = Some cs \<and> sorted_wrt (\<lambda>a b. b \<le> a) cs)"
  using top_languages_at_most_five_descending [of example_net "''octo''" example_profile None]
    top_languages_at_most_five_descending
      [of graph_net "''octo''" graph_profile "Some ''token''"]
    example_fetch graph_fetch by simp

subsection \<open>The commit estimate\<close>

lemma scan_repo_estimate:
  assumes "scan_repo repo (c, est) = Inr (c', est')"
  shows "est' = est + (if is_fork repo then 0 else size_of repo div 10)"
proof (cases repo)
  case (PDict d)
  show ?thesis
  proof (cases "is_fork repo")
    case True
    with assms PDict show ?thesis
      by (auto simp: scan_repo_def ebind_eq_Inr is_fork_def split: if_splits)
  next
    case False
    with assms PDict obtain sz q where
      sz: "py_get repo ''size'' (PInt 0) = Inr sz" and q: "py_floordiv sz 10 = Inr q"
      and est': "est' = est + q"
      by (auto simp: scan_repo_def ebind_eq_Inr is_fork_def split: if_splits)
    from q have "q = size_of repo div 10"
      using sz by (cases sz) (auto simp: size_of_def)
    with est' False show ?thesis by simp
  qed
qed (use assms in \<open>simp_all add: scan_repo_def\<close>)

lemma scan_repos_estimate:
  "scan_repos repos (c, est) = Inr (c', est') \<Longrightarrow>
   est' = est + sum_list (map (\<lambda>repo. size_of repo div 10)
                            (filter (\<lambda>repo. \<not> is_fork repo) repos))"
proof (induction repos arbitrary: c est)
  case Nil
  then show ?case by simp
next
  case (Cons repo repos)
  from Cons.prems obtain c1 est1 where
    step: "scan_repo repo (c, est) = Inr (c1, est1)"
    and rest: "scan_repos repos (c1, est1) = Inr (c', est')"
    by (auto simp: ebind_eq_Inr)
  from scan_repo_estimate [OF step] Cons.IH [OF rest] show ?case by simp
qed

lemma build_profile_total_commits:
  assumes "build_profile user_data tops est = Inr r"
  shows "py_getitem r ''total_commits'' = Inr (PInt (max est (public_repos_of user_data * 5)))"
proof -
  from assms obtain pr fl tc where
    pr: "py_get user_data ''public_repos'' (PInt 0) = Inr pr" and fl: "py_mul pr 5 = Inr fl"
    and tc: "py_max est fl = Inr tc" and r: "py_getitem r ''total_commits'' = Inr tc"
    by (auto simp: build_profile_def ebind_eq_Inr)
  from fl tc have "tc = PInt (max est (public_repos_of user_data * 5))"
    using pr by (cases pr) (auto simp: public_repos_of_def)
  with r show ?thesis by simp
qed

text \<open>
  Claim C3. When the basic fetch returns a record for a repository list \<open>repos\<close> given by
  the repositories call, the \<open>total_commits\<close> of the record is the larger of the sum of
  \<open>size div 10\<close> over the non-fork repositories among the first 30 (a missing size
  counting as 0) and five times \<open>public_repos\<close>. The witness is the example of the
  specification: the languages are Go twice and Python once, the estimate is
  \<open>max 15 10 = 15\<close>.
\<close>

theorem total_commits_is_max_of_estimates:
  assumes user: "requests_get net (user_url username) = Inr user_response"
      "json user_response = Inr user_data"
    and repos: "requests_get net (repos_url username) = Inr repos_response"
      "status_code repos_response = 200" "json repos_response = Inr (PList repos)"
    and fetched: "fetch_github_stats net username = Some profile"
  shows "py_getitem profile ''total_commits'' =
      Inr (PInt (max (size_estimate repos) (public_repos_of user_data * 5)))"
proof -
  from fetched user repos obtain c est tops where
    scan: "scan_repos (take 30 repos) ([], 0) = Inr (c, est)"
    and built: "build_profile user_data tops est = Inr profile"
    by (auto simp: fetch_github_stats_def fetch_body_def ebind_eq_Inr user_url_def repos_url_def
        split: sum.splits if_splits)
  from scan_repos_estimate [OF scan] have "est = size_estimate repos"
    by (simp add: size_estimate_def)
  with build_profile_total_commits [OF built] show ?thesis by simp
qed

theorem total_commits_is_max_of_estimates_witness:
  "fetch_github_stats example_net ''octo'' = Some example_profile
   \<and> size_estimate example_repos = 15 \<and> public_repos_of example_user * 5 = 10
   \<and> py_getitem example_profile ''total_commits'' = Inr (PInt 15)
   \<and> py_getitem example_profile ''top_languages'' =
       Inr (PList [lang_entry (PStr ''Go'', 2), lang_entry (PStr ''Python'', 1)])"
proof -
  have user: "requests_get example_net (user_url ''octo'')
      = Inr \<lparr> status_code = 200, json = Inr example_user \<rparr>"
    by (simp add: example_net_def user_url_def GITHUB_API_BASE_def)
  have repos: "requests_get example_net (repos_url ''octo'')
      = Inr \<lparr> status_code = 200, json = Inr (PList example_repos) \<rparr>"
    by (simp add: example_net_def repos_url_def GITHUB_API_BASE_def)
  have est: "size_estimate example_repos = 15"
    by (simp add: size_estimate_def example_repos_def is_fork_def size_of_def)
  have pub: "public_repos_of example_user * 5 = 10"
    by (simp add: public_repos_of_def example_user_def)
  have tops: "py_getitem example_profile ''top_languages'' =
       Inr (PList [lang_entry (PStr ''Go'', 2), lang_entry (PStr ''Python'', 1)])"
    by (simp add: example_profile_def lang_entry_def)
  from total_commits_is_max_of_estimates [OF user _ repos _ _ example_fetch] est pub
  have "py_getitem example_profile ''total_commits'' = Inr (PInt 15)" by simp
  with example_fetch est pub tops show ?thesis by simp
qed

subsection \<open>When the basic fetch returns nothing\<close>












subsection \<open>The record of the graph-query path\<close>

lemma build_detailed_fields:
  "build_detailed user tops = Inr p \<Longrightarrow>
   dict_keys p = [''username'', ''name'', ''bio'', ''avatar_url'', ''public_repos'',
                  ''total_commits'', ''top_languages'']"
  by (auto simp: build_detailed_def ebind_eq_Inr)

text \<open>
  Claim C2 says that a successful graph query gives a record with every field of the
  Profile Record, \<open>followers\<close>, \<open>following\<close> and \<open>created_at\<close> among them, as the REST path
  does. The record the graph-query path builds has seven fields and none of these
  three: here it is for a successful query.
\<close>

theorem detailed_record_lacks_followers:
  "fetch_github_stats_detailed graph_net ''octo'' (Some ''token'') = Some graph_profile
   \<and> py_getitem graph_profile ''followers'' = Inl KeyError
   \<and> py_getitem graph_profile ''following'' = Inl KeyError
   \<and> py_getitem graph_profile ''created_at'' = Inl KeyError
   \<and> dict_keys graph_profile \<noteq> profile_fields"
  using graph_fetch by (simp add: graph_profile_def profile_fields_def)

section \<open>Properties of double rounding\<close>

lemma pow2_pos [simp]: "0 < pow2 k"
  by (simp add: pow2_def)

lemma pow2_add: "pow2 (a + b) = pow2 a * pow2 b"
  by (simp add: pow2_def power_int_add)

lemma pow2_diff: "pow2 (a - b) = pow2 a / pow2 b"
  by (simp add: pow2_def power_int_diff)

lemma pow2_mono: "a \<le> b \<Longrightarrow> pow2 a \<le> pow2 b"
  by (simp add: pow2_def power_int_increasing)

lemma pow2_strict_mono: "a < b \<Longrightarrow> pow2 a < pow2 b"
  by (simp add: pow2_def power_int_strict_increasing)

lemma pow2_less_iff: "pow2 a < pow2 b \<longleftrightarrow> a < b"
  using pow2_strict_mono [of a b] pow2_mono [of b a] by (auto simp: not_less [symmetric])

lemma pow2_nat: "0 \<le> k \<Longrightarrow> pow2 k = 2 ^ nat k"
  by (simp add: pow2_def power_int_nonneg_exp)

lemma bitlen_pow2_bounds:
  assumes "0 < p"
  shows "pow2 (bitlen p - 1) \<le> of_int p" and "of_int p < pow2 (bitlen p)"
proof -
  from bitlen_bounds [OF assms] have lo: "2 ^ nat (bitlen p - 1) \<le> p" and hi: "p < 2 ^ nat (bitlen p)"
    by simp_all
  have pos: "1 \<le> bitlen p" using assms by (auto simp: bitlen_alt_def)
  from lo have "(of_int (2 ^ nat (bitlen p - 1)) :: rat) \<le> of_int p"
    by (simp only: of_int_le_iff)
  with pos show "pow2 (bitlen p - 1) \<le> of_int p"
    by (simp add: pow2_nat)
  from hi have "(of_int p :: rat) < of_int (2 ^ nat (bitlen p))"
    by (simp only: of_int_less_iff)
  with pos show "of_int p < pow2 (bitlen p)"
    by (simp add: pow2_nat)
qed

lemma binade_bounds:
  assumes "0 < x"
  shows "pow2 (binade x) \<le> x \<and> x < pow2 (binade x + 1)"
proof -
  obtain p q where pq: "quotient_of x = (p, q)" by (cases "quotient_of x")
  then have q: "0 < q" by (rule quotient_of_denom_pos)
  from pq have x: "x = of_int p / of_int q" by (rule quotient_of_div)
  with assms q have p: "0 < p" by (simp add: zero_less_divide_iff)
  let ?d = "bitlen p - bitlen q"
  note bp = bitlen_pow2_bounds [OF p] and bq = bitlen_pow2_bounds [OF q]
  have qpos: "(0::rat) < of_int q" using q by simp
  have upper: "x < pow2 (?d + 1)"
  proof -
    have "x < pow2 (bitlen p) / of_int q"
      unfolding x using bp(2) qpos by (simp add: divide_strict_right_mono)
    also have "\<dots> \<le> pow2 (bitlen p) / pow2 (bitlen q - 1)"
      by (rule frac_le) (use bq(1) in \<open>simp_all add: order.strict_implies_order\<close>)
    also have "\<dots> = pow2 (?d + 1)"
      by (simp add: pow2_diff [symmetric] algebra_simps)
    finally show ?thesis .
  qed
  have lower: "pow2 (?d - 1) \<le> x"
  proof -
    have "pow2 (?d - 1) = pow2 (bitlen p - 1) / pow2 (bitlen q)"
      by (simp add: pow2_diff [symmetric] algebra_simps)
    also have "\<dots> \<le> pow2 (bitlen p - 1) / of_int q"
      by (rule frac_le) (use bq(2) qpos in \<open>simp_all add: order.strict_implies_order\<close>)
    also have "\<dots> \<le> x"
      unfolding x using bp(1) qpos by (simp add: divide_right_mono)
    finally show ?thesis .
  qed
  show ?thesis
  proof (cases "pow2 ?d \<le> x")
    case True
    with pq upper show ?thesis by (simp add: binade_def)
  next
    case False
    with pq lower show ?thesis by (simp add: binade_def not_le)
  qed
qed

lemma binade_unique:
  assumes "pow2 e \<le> x" "x < pow2 (e + 1)"
  shows "binade x = e"
proof -
  have "0 < x" using assms(1) pow2_pos [of e] by linarith
  from binade_bounds [OF this] have lo: "pow2 (binade x) \<le> x" and hi: "x < pow2 (binade x + 1)"
    by simp_all
  from lo assms(2) have "pow2 (binade x) < pow2 (e + 1)" by linarith
  then have "binade x < e + 1" by (simp add: pow2_less_iff)
  moreover from assms(1) hi have "pow2 e < pow2 (binade x + 1)" by linarith
  then have "e < binade x + 1" by (simp add: pow2_less_iff)
  ultimately show ?thesis by simp
qed

lemma round_half_even_error: "\<bar>of_int (round_half_even r) - r\<bar> \<le> 1 / 2"
proof -
  define f where "f = \<lfloor>r\<rfloor>"
  have lo: "of_int f \<le> r" and hi: "r < of_int f + 1"
    unfolding f_def by linarith+
  consider "r - of_int f < 1 / 2" | "1 / 2 < r - of_int f" | "r - of_int f = 1 / 2"
    by linarith
  then show ?thesis
  proof cases
    case 1
    then have "round_half_even r = f" by (simp add: round_half_even_def f_def)
    with lo 1 show ?thesis by simp
  next
    case 2
    then have "round_half_even r = f + 1" by (simp add: round_half_even_def f_def)
    with hi 2 show ?thesis by simp
  next
    case 3
    then have "round_half_even r = f \<or> round_half_even r = f + 1"
      by (simp add: round_half_even_def f_def Let_def)
    with 3 show ?thesis by auto
  qed
qed

lemma round_half_even_int [simp]: "round_half_even (of_int n) = n"
  by (simp add: round_half_even_def)

lemma round_double_error:
  "\<bar>round_double x - x\<bar> \<le> \<bar>x\<bar> / 2 ^ 53 + pow2 (- 1075)"
proof (cases "x = 0")
  case True
  then show ?thesis by (simp add: round_double_def order.strict_implies_order)
next
  case False
  define e where "e = binade \<bar>x\<bar>"
  define quantum where "quantum = pow2 (max e (- 1022) - 52)"
  have qpos: "0 < quantum" by (simp add: quantum_def)
  have rd: "round_double x = of_int (round_half_even (x / quantum)) * quantum"
    using False by (simp add: round_double_def e_def quantum_def Let_def)
  have "round_double x - x = (of_int (round_half_even (x / quantum)) - x / quantum) * quantum"
    using qpos by (simp add: rd left_diff_distrib)
  then have "\<bar>round_double x - x\<bar> = \<bar>of_int (round_half_even (x / quantum)) - x / quantum\<bar> * quantum"
    using qpos by (simp add: abs_mult)
  also have "\<dots> \<le> 1 / 2 * quantum"
    using round_half_even_error [of "x / quantum"] qpos by (simp add: mult_right_mono)
  finally have err: "\<bar>round_double x - x\<bar> \<le> quantum / 2" by simp
  from False have "0 < \<bar>x\<bar>" by simp
  from binade_bounds [OF this] have lo: "pow2 e \<le> \<bar>x\<bar>" by (simp add: e_def)
  have "quantum / 2 \<le> \<bar>x\<bar> / 2 ^ 53 + pow2 (- 1075)"
  proof (cases "- 1022 \<le> e")
    case True
    then have "quantum / 2 = pow2 e / 2 ^ 53"
      by (simp add: quantum_def max_def pow2_diff) (simp add: pow2_def)
    also have "\<dots> \<le> \<bar>x\<bar> / 2 ^ 53"
      using lo by (simp add: divide_right_mono)
    finally show ?thesis
      using pow2_pos [of "- 1075"] by linarith
  next
    case False
    then have "quantum / 2 = pow2 (- 1075)"
      by (simp add: quantum_def max_def) (simp add: pow2_def)
    then show ?thesis by simp
  qed
  with err show ?thesis by linarith
qed


lemma round_double_0 [simp]: "round_double 0 = 0"
  by (simp add: round_double_def)

lemma round_double_int:
  assumes "\<bar>n\<bar> < 2 ^ 53"
  shows "round_double (of_int n) = of_int n"
proof (cases "n = 0")
  case True
  then show ?thesis by simp
next
  case False
  define e where "e = binade \<bar>of_int n\<bar>"
  from False have pos: "(0::rat) < \<bar>of_int n\<bar>" by simp
  from binade_bounds [OF pos] have lo: "pow2 e \<le> \<bar>of_int n\<bar>" and hi: "\<bar>of_int n\<bar> < pow2 (e + 1)"
    by (simp_all add: e_def)
  have "(\<bar>of_int n\<bar> :: rat) < 2 ^ 53"
    using assms by (metis of_int_abs of_int_less_numeral_power_cancel_iff)
  then have "\<bar>of_int n\<bar> < pow2 53" by (simp add: pow2_def)
  with lo have "pow2 e < pow2 53" by linarith
  then have e53: "e < 53" by (simp add: pow2_less_iff)
  from False have "(1::rat) \<le> \<bar>of_int n\<bar>"
    by (metis abs_ge_zero of_int_abs of_int_1_le_iff abs_0_eq int_one_le_iff_zero_less less_le)
  with hi have "pow2 0 < pow2 (e + 1)" by (simp add: pow2_def)
  then have e0: "0 \<le> e" by (simp add: pow2_less_iff)
  define k where "k = nat (52 - e)"
  have quantum: "pow2 (max e (- 1022) - 52) = 1 / 2 ^ k"
  proof -
    have "max e (- 1022) - 52 = - int k" using e0 e53 by (simp add: k_def max_def)
    then show ?thesis by (simp add: pow2_def power_int_minus_divide)
  qed
  have "of_int n / (1 / 2 ^ k) = (of_int (n * 2 ^ k) :: rat)" by simp
  then have "round_half_even (of_int n / (1 / 2 ^ k)) = n * 2 ^ k"
    by (simp only: round_half_even_int)
  with False show ?thesis
    by (simp add: round_double_def Let_def e_def [symmetric] quantum)
qed

lemma round_double_100 [simp]: "round_double 100 = 100"
  using round_double_int [of 100] by simp

lemma round_double_260 [simp]: "round_double 260 = 260"
  using round_double_int [of 260] by simp

lemma round_double_1 [simp]: "round_double 1 = 1"
  using round_double_int [of 1] by simp

subsection \<open>The percentage of a count\<close>

lemma finite_double_small: "\<bar>r\<bar> \<le> 1000 \<Longrightarrow> finite_double r = Some r"
proof -
  assume "\<bar>r\<bar> \<le> 1000"
  moreover have "(1000::rat) < 2 ^ 1024" by simp
  ultimately show ?thesis unfolding finite_double_def by (simp only: if_True order_le_less_trans)
qed

lemma finite_double_0 [simp]: "finite_double 0 = Some 0"
  by (simp add: finite_double_def)

lemma finite_double_100 [simp]: "finite_double 100 = Some 100"
  by (rule finite_double_small) simp

lemma finite_double_260 [simp]: "finite_double 260 = Some 260"
  by (rule finite_double_small) simp

lemma pow2_tiny: "pow2 (- 1075) \<le> 1 / 2 ^ 53"
proof -
  have "pow2 (- 1075) \<le> pow2 (- 53)" by (rule pow2_mono) simp
  also have "\<dots> = 1 / 2 ^ 53" by (simp add: pow2_def)
  finally show ?thesis .
qed

lemma float_value_pct_zero:
  "total_usage \<noteq> 0 \<Longrightarrow> float_value (pct_of 0 total_usage) = Some 0"
  by (simp add: pct_of_def)

lemma float_value_bar_zero:
  "total_usage \<noteq> 0 \<Longrightarrow> float_value (FMul (FDiv (pct_of 0 total_usage) 100) 260) = Some 0"
  by (simp add: pct_of_def)

lemma ratio_rounded:
  assumes "0 \<le> x" "x \<le> 1"
  shows "\<bar>round_double x - x\<bar> \<le> x / 2 ^ 53 + pow2 (- 1075)"
    and "\<bar>round_double x\<bar> \<le> 2"
proof -
  from round_double_error [of x] assms(1)
  show err: "\<bar>round_double x - x\<bar> \<le> x / 2 ^ 53 + pow2 (- 1075)" by simp
  have "x / 2 ^ 53 \<le> 1 / 2" using assms(2) by simp
  moreover have "pow2 (- 1075) \<le> 1 / 2" using pow2_tiny by simp
  ultimately show "\<bar>round_double x\<bar> \<le> 2" using err assms by linarith
qed

lemma pct_value_bound:
  assumes "0 \<le> c" "c \<le> t" "0 < t"
  shows "\<exists>v. float_value (pct_of c t) = Some v
           \<and> \<bar>v - 100 * of_int c / of_int t\<bar> \<le> (of_int c / of_int t) / 2 ^ 45 + pow2 (- 1068)"
proof -
  define x :: rat where "x = of_int c / of_int t"
  define r where "r = round_double x"
  define v where "v = round_double (r * 100)"
  define eta where "eta = pow2 (- 1075)"
  have x0: "0 \<le> x" and x1: "x \<le> 1" using assms by (simp_all add: x_def)
  from ratio_rounded [OF x0 x1] have rerr: "\<bar>r - x\<bar> \<le> x / 2 ^ 53 + eta" and r2: "\<bar>r\<bar> \<le> 2"
    by (simp_all add: r_def eta_def)
  from round_double_error [of "r * 100"] have verr: "\<bar>v - r * 100\<bar> \<le> \<bar>r\<bar> * 100 / 2 ^ 53 + eta"
    by (simp add: v_def eta_def abs_mult)
  have eta_small: "eta \<le> 1 / 2 ^ 53" and eta_pos: "0 < eta"
    using pow2_tiny by (simp_all add: eta_def)
  have rabs: "\<bar>r\<bar> \<le> x + x / 2 ^ 53 + eta" using rerr x0 by linarith
  have "v - 100 * x = (v - r * 100) + 100 * (r - x)" by simp
  then have "\<bar>v - 100 * x\<bar> \<le> \<bar>v - r * 100\<bar> + \<bar>100 * (r - x)\<bar>"
    by (simp only: abs_triangle_ineq)
  moreover have "\<bar>100 * (r - x)\<bar> = 100 * \<bar>r - x\<bar>"
    by (simp only: abs_mult abs_numeral)
  ultimately have "\<bar>v - 100 * x\<bar> \<le> \<bar>v - r * 100\<bar> + 100 * \<bar>r - x\<bar>"
    by (simp only:)
  also have "\<dots> \<le> (\<bar>r\<bar> * 100 / 2 ^ 53 + eta) + 100 * (x / 2 ^ 53 + eta)"
    by (intro add_mono verr mult_left_mono rerr) simp
  also have "\<dots> \<le> ((x + x / 2 ^ 53 + eta) * 100 / 2 ^ 53 + eta) + 100 * (x / 2 ^ 53 + eta)"
    using rabs by (simp add: divide_right_mono mult_right_mono)
  also have "\<dots> = x * (200 / 2 ^ 53 + 100 / (2 ^ 53 * 2 ^ 53)) + eta * (101 + 100 / 2 ^ 53)"
    by (simp add: field_simps)
  also have "\<dots> \<le> x * (1 / 2 ^ 45) + eta * 128"
  proof -
    have "(200 / 2 ^ 53 + 100 / (2 ^ 53 * 2 ^ 53) :: rat) \<le> 1 / 2 ^ 45" by simp
    then have "x * (200 / 2 ^ 53 + 100 / (2 ^ 53 * 2 ^ 53)) \<le> x * (1 / 2 ^ 45)"
      using x0 by (rule mult_left_mono)
    moreover have "eta * (101 + 100 / 2 ^ 53) \<le> eta * 128"
      using eta_pos by (intro mult_left_mono) simp_all
    ultimately show ?thesis by linarith
  qed
  also have "eta * 128 = pow2 (- 1068)"
    by (simp add: eta_def pow2_def)
  finally have bound: "\<bar>v - 100 * x\<bar> \<le> x / 2 ^ 45 + pow2 (- 1068)" by simp
  have "pow2 (- 1068) \<le> pow2 0" by (rule pow2_mono) simp
  then have "pow2 (- 1068) \<le> 1" by (simp add: pow2_def)
  with bound x0 x1 have "\<bar>v\<bar> \<le> 1000"
  proof -
    have "x / 2 ^ 45 \<le> 1" using x1 x0 by (simp add: field_simps) 
    with bound \<open>pow2 (- 1068) \<le> 1\<close> x0 x1 show ?thesis by linarith
  qed
  then have fv: "finite_double v = Some v" by (rule finite_double_small)
  from r2 have fr: "finite_double r = Some r" by (intro finite_double_small) linarith
  from assms(3) fr fv have "float_value (pct_of c t) = Some v"
    by (simp add: pct_of_def x_def [symmetric] r_def [symmetric] v_def [symmetric])
  with bound show ?thesis by (simp add: x_def)
qed

lemma ratio_no_overflow:
  assumes "0 \<le> c" "c \<le> t" "0 < t"
  shows "\<not> double_overflow (of_int c / of_int t)"
proof -
  have "\<bar>round_double (of_int c / of_int t)\<bar> \<le> 2"
    using assms by (intro ratio_rounded(2)) simp_all
  moreover have "(2::rat) < 2 ^ 1024" by simp
  ultimately show ?thesis unfolding double_overflow_def by linarith
qed

lemma round_half_even_near:
  assumes "\<bar>of_int n - r\<bar> < 1 / 2"
  shows "round_half_even r = n"
proof (cases "of_int n \<le> r")
  case True
  with assms have "\<lfloor>r\<rfloor> = n" by (intro floor_unique) linarith+
  with assms True show ?thesis by (simp add: round_half_even_def Let_def)
next
  case False
  with assms have "\<lfloor>r\<rfloor> = n - 1" by (intro floor_unique) (simp, linarith)+
  with assms False show ?thesis by (simp add: round_half_even_def Let_def)
qed

lemma round_third: "round_double (1 / 3) = 6004799503160661 / 18014398509481984"
proof -
  have "binade (1 / 3) = - 2"
    by (rule binade_unique) (simp_all add: pow2_def)
  moreover have "round_half_even (18014398509481984 / 3) = 6004799503160661"
    by (rule round_half_even_near) simp
  ultimately show ?thesis
    by (simp add: round_double_def Let_def pow2_def)
qed

lemma round_third_100:
  "round_double (6004799503160661 / 18014398509481984 * 100) = 2345624805922133 / 70368744177664"
proof -
  have "binade (6004799503160661 / 18014398509481984 * 100) = 5"
    by (rule binade_unique) (simp_all add: pow2_def)
  moreover have "round_half_even (150119987579016525 / 32) = 4691249611844266"
    by (rule round_half_even_near) simp
  ultimately show ?thesis
    by (simp add: round_double_def Let_def pow2_def)
qed

lemma pct_third: "float_value (pct_of 1 3) = Some (2345624805922133 / 70368744177664)"
proof -
  have a: "finite_double (6004799503160661 / 18014398509481984) = Some (6004799503160661 / 18014398509481984)"
    by (rule finite_double_small) simp
  have b: "finite_double (2345624805922133 / 70368744177664) = Some (2345624805922133 / 70368744177664)"
    by (rule finite_double_small) simp
  have c: "round_double (150119987579016525 / 4503599627370496) = 2345624805922133 / 70368744177664"
    using round_third_100 by simp
  show ?thesis
    by (simp add: pct_of_def round_third a c b)
qed

section \<open>Properties of the Card Renderer\<close>

subsection \<open>Library calls\<close>

lemma svg_call_None [simp]: "svg_call None x = Inr x"
  by (simp add: svg_call_def)

lemma svg_call_Some [simp]: "svg_call (Some e) x = Inl e"
  by (simp add: svg_call_def)

lemma svg_call_eq_Inr: "svg_call outcome x = Inr y \<longleftrightarrow> outcome = None \<and> y = x"
  by (cases outcome) auto

lemma svg_add_eq_Inr:
  "svg_add rt element = Inr x \<longleftrightarrow> element_error rt element = None \<and> x = element"
  by (simp add: svg_add_def svg_call_eq_Inr)

lemma svg_add_accepted: "element_error rt element = None \<Longrightarrow> svg_add rt element = Inr element"
  by (simp add: svg_add_def)

lemma lenient_sel [simp]:
  "str_lower (lenient rt) = str_lower rt"
  "drawing_error (lenient rt) card_size view_box = None"
  "element_error (lenient rt) element = None"
  "tostring_error (lenient rt) dwg = None"
  by (simp_all add: lenient_def)

lemma svg_add_lenient [simp]: "svg_add (lenient rt) element = Inr element"
  by (simp add: svg_add_def)

lemma py_lower_lenient [simp]: "py_lower (lenient rt) v = py_lower rt v"
  by (cases v) simp_all

lemma filter_langs_lenient [simp]:
  "filter_langs (lenient rt) excluded_lower items = filter_langs rt excluded_lower items"
  by (induction items) simp_all

lemma select_langs_lenient [simp]:
  "select_langs (lenient rt) data excluded_languages = select_langs rt data excluded_languages"
  by (cases excluded_languages) (simp_all add: select_langs_def cong: if_cong)

lemma draw_row_accepted:
  assumes "draw_row (lenient rt) theme total_usage i lang count = Inr row"
    and "list_all (\<lambda>element. element_error rt element = None) row"
  shows "draw_row rt theme total_usage i lang count = Inr row"
  using assms
  by (auto simp: draw_row_def ebind_eq_Inr Let_def svg_add_accepted)

lemma draw_rows_accepted:
  "draw_rows (lenient rt) theme total_usage i items = Inr rows \<Longrightarrow>
   list_all (\<lambda>element. element_error rt element = None) rows \<Longrightarrow>
   draw_rows rt theme total_usage i items = Inr rows"
proof (induction items arbitrary: i rows)
  case Nil
  then show ?case by simp
next
  case (Cons item items)
  from Cons.prems(1) obtain lang count row rest where
    item: "unpack2 item = Inr (lang, count)"
    and row: "draw_row (lenient rt) theme total_usage (int i) lang count = Inr row"
    and rest: "draw_rows (lenient rt) theme total_usage (Suc i) items = Inr rest"
    and rows: "rows = row @ rest"
    by (auto simp: ebind_eq_Inr)
  from Cons.prems(2) rows have
    "list_all (\<lambda>element. element_error rt element = None) row"
    "list_all (\<lambda>element. element_error rt element = None) rest"
    by simp_all
  with draw_row_accepted [OF row] Cons.IH [OF rest] item rows show ?case
    by simp
qed

lemma draw_lang_card_accepted:
  assumes "draw_lang_card (lenient rt) THEMES data theme_name custom_colors excluded_languages
             = Inr dwg"
    and "svg_accepts rt dwg"
  shows "draw_lang_card rt THEMES data theme_name custom_colors excluded_languages = Inr dwg"
proof -
  from assms(1) obtain theme langs n bg_color border_color title_color title_font_size
      font_family items total rows where
    theme: "resolve_theme THEMES theme_name custom_colors = Inr theme"
    and langs: "select_langs rt data excluded_languages = Inr langs"
    and n: "py_len langs = Inr n"
    and header: "theme_item theme ''bg_color'' = Inr bg_color"
      "theme_item theme ''border_color'' = Inr border_color"
      "theme_item theme ''title_color'' = Inr title_color"
      "theme_item theme ''title_font_size'' = Inr title_font_size"
      "theme_item theme ''font_family'' = Inr font_family"
    and items: "py_iter langs = Inr items"
    and total: "sum_counts items 0 = Inr total"
    and rows: "draw_rows (lenient rt) theme (if total = 0 then 1 else total) 0 items = Inr rows"
    and dwg: "dwg =
      \<lparr> dwg_size = (''100%'', ''100%''),
        viewBox = ''0 0 '' @ str_int width @ '' ''
                    @ str_int (header_height + int n * item_height + 10),
        elements =
          [Rect (0, 0) (LenStr ''100%'', LenStr ''100%'')
             [(''rx'', AInt 10), (''ry'', AInt 10), (''fill'', AVal bg_color),
              (''stroke'', AVal border_color), (''stroke_width'', AInt 2)],
           Text (Literal ''Top Languages'') (20, 30)
             [(''fill'', AVal title_color), (''font_size'', AVal title_font_size),
              (''font_family'', AVal font_family), (''font_weight'', AStr ''bold'')]]
          @ rows \<rparr>"
    by (auto simp: draw_lang_card_def ebind_eq_Inr Let_def)
  from assms(2) have accepted:
    "drawing_error rt (''100%'', ''100%'')
       (''0 0 '' @ str_int width @ '' '' @ str_int (header_height + int n * item_height + 10))
     = None"
    "element_error rt
       (Rect (0, 0) (LenStr ''100%'', LenStr ''100%'')
          [(''rx'', AInt 10), (''ry'', AInt 10), (''fill'', AVal bg_color),
           (''stroke'', AVal border_color), (''stroke_width'', AInt 2)]) = None"
    "element_error rt
       (Text (Literal ''Top Languages'') (20, 30)
          [(''fill'', AVal title_color), (''font_size'', AVal title_font_size),
           (''font_family'', AVal font_family), (''font_weight'', AStr ''bold'')]) = None"
    "list_all (\<lambda>element. element_error rt element = None) rows"
    "tostring_error rt dwg = None"
    by (simp_all add: svg_accepts_def dwg)
  note drawn = draw_rows_accepted [OF rows accepted(4)]
  from accepted(5) have "tostring_error rt
      \<lparr> dwg_size = (''100%'', ''100%''),
        viewBox = ''0 0 '' @ str_int width @ '' ''
                    @ str_int (header_height + int n * item_height + 10),
        elements =
          [Rect (0, 0) (LenStr ''100%'', LenStr ''100%'')
             [(''rx'', AInt 10), (''ry'', AInt 10), (''fill'', AVal bg_color),
              (''stroke'', AVal border_color), (''stroke_width'', AInt 2)],
           Text (Literal ''Top Languages'') (20, 30)
             [(''fill'', AVal title_color), (''font_size'', AVal title_font_size),
              (''font_family'', AVal font_family), (''font_weight'', AStr ''bold'')]]
          @ rows \<rparr> = None"
    by (simp only: dwg)
  with theme langs n header items total drawn accepted(1-3) show ?thesis
    by (simp add: draw_lang_card_def Let_def svg_add_accepted dwg)
qed

subsection \<open>Case-insensitive exclusion\<close>

lemma of_char_lower:
  assumes "is_upper c"
  shows "(of_char (ascii_lower_char c) :: nat) = of_char c + 32"
  using assms by (simp add: ascii_lower_char_def is_upper_def)

lemma lower_not_upper: "is_upper c \<Longrightarrow> \<not> is_upper (ascii_lower_char c)"
  using of_char_lower [of c] by (simp add: is_upper_def)

lemma lower_char_upper_iff:
  assumes "is_upper c"
  shows "ascii_lower_char c = d \<longleftrightarrow> (of_char d :: nat) = of_char c + 32"
proof
  assume "ascii_lower_char c = d"
  with of_char_lower [OF assms] show "(of_char d :: nat) = of_char c + 32" by simp
next
  assume "(of_char d :: nat) = of_char c + 32"
  with of_char_lower [OF assms] have "(of_char (ascii_lower_char c) :: nat) = of_char d"
    by simp
  then show "ascii_lower_char c = d" by simp
qed

lemma lower_char_inj_upper:
  assumes "is_upper c" "is_upper d" "ascii_lower_char c = ascii_lower_char d"
  shows "c = d"
proof -
  have "(of_char c :: nat) + 32 = of_char (ascii_lower_char c)"
    using assms(1) by (rule of_char_lower [symmetric])
  also have "\<dots> = of_char (ascii_lower_char d)"
    by (simp only: assms(3))
  also have "\<dots> = (of_char d :: nat) + 32"
    using assms(2) by (rule of_char_lower)
  finally have "(of_char c :: nat) = of_char d" by simp
  then show ?thesis by simp
qed

lemma lower_char_eq_iff: "ascii_lower_char c = ascii_lower_char d \<longleftrightarrow> same_letter c d"
proof (cases "is_upper c")
  case c: True
  show ?thesis
  proof (cases "is_upper d")
    case d: True
    have "ascii_lower_char c = ascii_lower_char d \<longleftrightarrow> c = d"
      using lower_char_inj_upper [OF c d] by blast
    moreover from c d have "same_letter c d \<longleftrightarrow> c = d"
      by (auto simp: same_letter_def is_upper_def)
    ultimately show ?thesis by simp
  next
    case d: False
    then have "ascii_lower_char d = d" by (simp add: ascii_lower_char_def)
    moreover from c d have "same_letter c d \<longleftrightarrow> (of_char d :: nat) = of_char c + 32"
      by (auto simp: same_letter_def)
    ultimately show ?thesis using lower_char_upper_iff [OF c, of d] by simp
  qed
next
  case c: False
  then have lc: "ascii_lower_char c = c" by (simp add: ascii_lower_char_def)
  show ?thesis
  proof (cases "is_upper d")
    case d: True
    from c d have "same_letter c d \<longleftrightarrow> (of_char c :: nat) = of_char d + 32"
      by (auto simp: same_letter_def)
    with lc lower_char_upper_iff [OF d, of c] show ?thesis by auto
  next
    case d: False
    then have "ascii_lower_char d = d" by (simp add: ascii_lower_char_def)
    with c d lc show ?thesis by (auto simp: same_letter_def)
  qed
qed

lemma ascii_lower_eq_iff: "ascii_lower a = ascii_lower b \<longleftrightarrow> ci_match a b"
proof (induction a arbitrary: b)
  case Nil
  show ?case by (auto simp: ascii_lower_def ci_match_def)
next
  case (Cons c a)
  show ?case
  proof (cases b)
    case Nil
    then show ?thesis by (simp add: ascii_lower_def ci_match_def)
  next
    case (Cons d b')
    with Cons.IH [of b'] show ?thesis
      by (simp add: ascii_lower_def ci_match_def lower_char_eq_iff)
  qed
qed

lemma lowered_excluded_iff:
  assumes "folds_ascii rt" and "ascii_text name" and "list_all ascii_text excluded"
  shows "str_lower rt name \<in> set (map (str_lower rt) excluded) \<longleftrightarrow> excluded_ci excluded name"
proof -
  from assms(1,2) have name: "str_lower rt name = ascii_lower name"
    by (simp add: folds_ascii_def)
  from assms(1,3) have "map (str_lower rt) excluded = map ascii_lower excluded"
    by (simp add: folds_ascii_def list_all_iff)
  with name show ?thesis
    by (auto simp: excluded_ci_def list_ex_iff ascii_lower_eq_iff)
qed

lemma unpack2_lang_pair [simp]: "unpack2 (lang_pair (n, c)) = Inr (PStr n, PInt c)"
  by (simp add: unpack2_def lang_pair_def)

lemma filter_langs_pairs:
  assumes "folds_ascii rt" and "list_all ascii_text excluded"
  shows "list_all ascii_text (map fst pairs) \<Longrightarrow>
         filter_langs rt (map (str_lower rt) excluded) (map lang_pair pairs) =
           Inr (map lang_pair (kept_pairs excluded pairs))"
proof (induction pairs)
  case Nil
  show ?case by (simp add: kept_pairs_def)
next
  case (Cons nc pairs)
  obtain n c where nc: "nc = (n, c)" by (cases nc)
  have same: "PTuple [PStr n, PInt c] = lang_pair (n, c)" by (simp add: lang_pair_def)
  from Cons.prems nc have name: "ascii_text n" and rest: "list_all ascii_text (map fst pairs)"
    by simp_all
  from Cons.IH [OF rest] lowered_excluded_iff [OF assms(1) name assms(2)] show ?case
    by (simp add: nc same kept_pairs_def del: set_map)
qed

lemma truthy_lang_list [simp]: "truthy (lang_list pairs) \<longleftrightarrow> pairs \<noteq> []"
  by (simp add: lang_list_def)

lemma kept_pairs_Nil [simp]: "kept_pairs [] pairs = pairs"
  by (simp add: kept_pairs_def excluded_ci_def)

lemma select_langs_unfiltered:
  assumes "py_get data ''top_languages'' (PList []) = Inr (lang_list pairs)"
  shows "select_langs rt data None = Inr (lang_list (shown_pairs [] pairs))"
  using assms by (auto simp: select_langs_def shown_pairs_def lang_list_def lang_pair_def)

lemma select_langs_empty:
  assumes "py_get data ''top_languages'' (PList []) = Inr (PList [])"
  shows "select_langs rt data excluded_languages = Inr (lang_list [(''No Data'', 0)])"
  using assms
  by (cases excluded_languages) (simp_all add: select_langs_def lang_list_def lang_pair_def)

lemma select_langs_pairs:
  assumes top: "py_get data ''top_languages'' (PList []) = Inr (lang_list pairs)"
    and folds: "folds_ascii rt"
    and names: "list_all ascii_text (map fst pairs)"
    and entries: "list_all ascii_text (exclusions excluded_languages)"
  shows "select_langs rt data excluded_languages =
     Inr (lang_list (shown_pairs (exclusions excluded_languages) pairs))"
proof (cases excluded_languages)
  case None
  with select_langs_unfiltered [OF top, of rt] show ?thesis
    by (simp add: exclusions_def)
next
  case (Some excluded)
  with entries have ascii: "list_all ascii_text excluded" by (simp add: exclusions_def)
  show ?thesis
  proof (cases "excluded \<noteq> [] \<and> pairs \<noteq> []")
    case True
    have "py_iter (lang_list pairs) = Inr (map lang_pair pairs)"
      by (simp add: lang_list_def)
    with top Some True filter_langs_pairs [OF folds ascii names] show ?thesis
      by (auto simp: select_langs_def shown_pairs_def exclusions_def lang_list_def lang_pair_def)
  next
    case False
    have "kept_pairs excluded [] = []" by (simp add: kept_pairs_def)
    with False top Some show ?thesis
      by (auto simp: select_langs_def shown_pairs_def exclusions_def lang_list_def lang_pair_def)
  qed
qed

subsection \<open>The rows and the height of a card\<close>

lemma str_int_300: "str_int 300 = ''300''"
  by code_simp

lemma str_int_85: "str_int 85 = ''85''"
  by code_simp

lemma str_int_120: "str_int 120 = ''120''"
  by code_simp

lemma theme_completeD:
  assumes "theme_complete THEMES theme_name custom_colors"
  shows "\<exists>theme. resolve_theme THEMES theme_name custom_colors = Inr theme
           \<and> (\<forall>k \<in> set theme_attributes. \<exists>v. theme_item theme k = Inr v)"
  using assms
  by (auto simp: theme_complete_def list_all_iff theme_item_def split: sum.splits)

lemma sum_counts_pairs:
  "sum_counts (map lang_pair pairs) acc = Inr (acc + sum_list (map snd pairs))"
proof (induction pairs arbitrary: acc)
  case Nil
  show ?case by simp
next
  case (Cons nc pairs)
  obtain n c where nc: "nc = (n, c)" by (cases nc)
  show ?case by (simp add: nc Cons.IH)
qed

lemma draw_row_pair:
  assumes "total_usage \<noteq> 0"
    and "\<forall>k \<in> set theme_attributes. \<exists>v. theme_item theme k = Inr v"
    and "\<not> double_overflow (of_int c / of_int total_usage)"
  shows "\<exists>row. draw_row (lenient rt) theme total_usage i (PStr n) (PInt c) = Inr row
           \<and> length row = 4
           \<and> (\<forall>rest. rows_of (row @ rest) = row_of_pair total_usage (n, c) # rows_of rest)"
proof -
  from assms(2) obtain text_color text_font_size font_family border_color title_color where
    "theme_item theme ''text_color'' = Inr text_color"
    "theme_item theme ''text_font_size'' = Inr text_font_size"
    "theme_item theme ''font_family'' = Inr font_family"
    "theme_item theme ''border_color'' = Inr border_color"
    "theme_item theme ''title_color'' = Inr title_color"
    unfolding theme_attributes_def by (meson list.set_intros)
  with assms(1,3) show ?thesis
    by (simp add: draw_row_def Let_def row_of_pair_def pct_of_def bar_of_def width_def)
qed

lemma draw_rows_pairs:
  assumes "total_usage \<noteq> 0"
    and "\<forall>k \<in> set theme_attributes. \<exists>v. theme_item theme k = Inr v"
  shows "\<forall>nc \<in> set pairs. \<not> double_overflow (of_int (snd nc) / of_int total_usage) \<Longrightarrow>
         \<exists>rows. draw_rows (lenient rt) theme total_usage i (map lang_pair pairs) = Inr rows
           \<and> length rows = 4 * length pairs
           \<and> rows_of rows = map (row_of_pair total_usage) pairs"
proof (induction pairs arbitrary: i)
  case Nil
  show ?case by simp
next
  case (Cons nc pairs)
  obtain n c where nc: "nc = (n, c)" by (cases nc)
  from Cons.prems nc have fit: "\<not> double_overflow (of_int c / of_int total_usage)"
    and fits: "\<forall>nc \<in> set pairs. \<not> double_overflow (of_int (snd nc) / of_int total_usage)"
    by simp_all
  from draw_row_pair [OF assms fit, of rt "int i" n] obtain row where
    row: "draw_row (lenient rt) theme total_usage (int i) (PStr n) (PInt c) = Inr row"
    and len: "length row = 4"
    and rows_of: "\<And>rest. rows_of (row @ rest) = row_of_pair total_usage (n, c) # rows_of rest"
    by blast
  from Cons.IH [OF fits, of "Suc i"] obtain rest where
    rest: "draw_rows (lenient rt) theme total_usage (Suc i) (map lang_pair pairs) = Inr rest"
    and rlen: "length rest = 4 * length pairs"
    and rrows: "rows_of rest = map (row_of_pair total_usage) pairs"
    by blast
  from row rest len rlen rows_of [of rest] rrows show ?case
    by (simp add: nc)
qed

lemma lenient_card_pairs:
  assumes complete: "theme_complete THEMES theme_name custom_colors"
    and selected: "select_langs rt data excluded_languages = Inr (lang_list pairs)"
    and fit: "counts_fit pairs"
  shows "\<exists>dwg. draw_lang_card (lenient rt) THEMES data theme_name custom_colors
                  excluded_languages = Inr dwg
           \<and> viewBox dwg = ''0 0 300 '' @ str_int (50 + 35 * int (length pairs))
           \<and> length (elements dwg) = 2 + 4 * length pairs
           \<and> card_rows dwg = map (row_of_pair (total_usage_of pairs)) pairs"
proof -
  from complete obtain theme where
    theme: "resolve_theme THEMES theme_name custom_colors = Inr theme"
    and items: "\<forall>k \<in> set theme_attributes. \<exists>v. theme_item theme k = Inr v"
    using theme_completeD by blast
  from items obtain bg_color border_color title_color title_font_size font_family where
    header: "theme_item theme ''bg_color'' = Inr bg_color"
    "theme_item theme ''border_color'' = Inr border_color"
    "theme_item theme ''title_color'' = Inr title_color"
    "theme_item theme ''title_font_size'' = Inr title_font_size"
    "theme_item theme ''font_family'' = Inr font_family"
    unfolding theme_attributes_def by (meson list.set_intros)
  have nz: "total_usage_of pairs \<noteq> 0"
    by (simp add: total_usage_of_def)
  from fit have "\<forall>nc \<in> set pairs.
      \<not> double_overflow (of_int (snd nc) / of_int (total_usage_of pairs))"
    by (simp add: counts_fit_def list_all_iff)
  from draw_rows_pairs [OF nz items this, of rt 0] obtain rows where
    rows: "draw_rows (lenient rt) theme (total_usage_of pairs) 0 (map lang_pair pairs) = Inr rows"
    and len: "length rows = 4 * length pairs"
    and rows_of: "rows_of rows = map (row_of_pair (total_usage_of pairs)) pairs"
    by blast
  have height: "header_height + int (length pairs) * item_height + 10 = 50 + 35 * int (length pairs)"
    by (simp add: header_height_def item_height_def)
  have total: "(if sum_list (map snd pairs) = 0 then 1 else sum_list (map snd pairs))
      = total_usage_of pairs"
    by (simp add: total_usage_of_def)
  show ?thesis
    using theme selected header rows len rows_of
    by (simp add: draw_lang_card_def lang_list_def sum_counts_pairs Let_def total height
        width_def str_int_300 card_rows_def)
qed

lemma draw_lang_card_pairs:
  assumes complete: "theme_complete THEMES theme_name custom_colors"
    and selected: "select_langs rt data excluded_languages = Inr (lang_list pairs)"
    and fit: "counts_fit pairs"
    and accepted: "library_accepts rt THEMES data theme_name custom_colors excluded_languages"
  shows "\<exists>dwg. draw_lang_card rt THEMES data theme_name custom_colors excluded_languages = Inr dwg
           \<and> viewBox dwg = ''0 0 300 '' @ str_int (50 + 35 * int (length pairs))
           \<and> length (elements dwg) = 2 + 4 * length pairs
           \<and> card_rows dwg = map (row_of_pair (total_usage_of pairs)) pairs"
proof -
  from lenient_card_pairs [OF complete selected fit] obtain dwg where
    built: "draw_lang_card (lenient rt) THEMES data theme_name custom_colors excluded_languages
              = Inr dwg"
    and card: "viewBox dwg = ''0 0 300 '' @ str_int (50 + 35 * int (length pairs))"
      "length (elements dwg) = 2 + 4 * length pairs"
      "card_rows dwg = map (row_of_pair (total_usage_of pairs)) pairs"
    by blast
  from accepted built have "svg_accepts rt dwg"
    by (simp add: library_accepts_def)
  from draw_lang_card_accepted [OF built this] card show ?thesis by blast
qed

lemma draw_row_rows_of:
  assumes "draw_row rt theme total_usage i lang count = Inr row"
  shows "\<exists>r. \<forall>rest. rows_of (row @ rest) = r # rows_of rest"
  using assms by (auto simp: draw_row_def ebind_eq_Inr Let_def svg_add_eq_Inr)

lemma draw_rows_count:
  "draw_rows rt theme total_usage i items = Inr rows \<Longrightarrow> length (rows_of rows) = length items"
proof (induction items arbitrary: i rows)
  case Nil
  then show ?case by simp
next
  case (Cons item items)
  from Cons.prems obtain lang count row rest where
    row: "draw_row rt theme total_usage (int i) lang count = Inr row"
    and rest: "draw_rows rt theme total_usage (Suc i) items = Inr rest"
    and rows: "rows = row @ rest"
    by (auto simp: ebind_eq_Inr)
  from draw_row_rows_of [OF row] obtain r where "rows_of (row @ rest) = r # rows_of rest"
    by blast
  with Cons.IH [OF rest] rows show ?case by simp
qed

lemma py_len_iter: "py_len langs = Inr n \<Longrightarrow> py_iter langs = Inr items \<Longrightarrow> length items = n"
  by (cases langs) auto

lemma drawn_card_height:
  assumes "draw_lang_card rt THEMES data theme_name custom_colors excluded_languages = Inr dwg"
  shows "\<exists>langs n. select_langs rt data excluded_languages = Inr langs \<and> py_len langs = Inr n
           \<and> length (card_rows dwg) = n
           \<and> viewBox dwg = ''0 0 300 '' @ str_int (50 + 35 * int n)"
proof -
  from assms obtain theme langs n items total_usage rows header where
    langs: "select_langs rt data excluded_languages = Inr langs"
    and n: "py_len langs = Inr n"
    and items: "py_iter langs = Inr items"
    and rows: "draw_rows rt theme total_usage 0 items = Inr rows"
    and box: "viewBox dwg =
        ''0 0 '' @ str_int width @ '' '' @ str_int (header_height + int n * item_height + 10)"
    and elems: "elements dwg = header @ rows" and header: "length header = 2"
    by (auto simp: draw_lang_card_def ebind_eq_Inr Let_def svg_add_eq_Inr svg_call_eq_Inr)
  from draw_rows_count [OF rows] py_len_iter [OF n items] elems header
  have "length (card_rows dwg) = n"
    by (simp add: card_rows_def)
  moreover have "header_height + int n * item_height + 10 = 50 + 35 * int n"
    by (simp add: header_height_def item_height_def)
  ultimately show ?thesis
    using langs n box by (simp add: width_def str_int_300)
qed

subsection \<open>Counts and percentages\<close>

lemma count_le_total:
  fixes cs :: "int list"
  assumes "\<forall>c \<in> set cs. 0 \<le> c" "c \<in> set cs"
  shows "c \<le> sum_list cs"
  using assms
proof (induction cs)
  case Nil
  then show ?case by simp
next
  case (Cons a cs)
  have "0 \<le> sum_list cs" using Cons.prems(1) by (simp add: sum_list_nonneg)
  with Cons show ?case by auto
qed

lemma zero_total_counts:
  fixes cs :: "int list"
  assumes "\<forall>c \<in> set cs. 0 \<le> c" "sum_list cs = 0" "c \<in> set cs"
  shows "c = 0"
  using count_le_total [OF assms(1,3)] assms by auto

lemma nonneg_counts_fit:
  assumes "\<forall>nc \<in> set pairs. 0 \<le> snd nc"
  shows "counts_fit pairs"
proof -
  let ?t = "total_usage_of pairs"
  have all: "\<forall>c \<in> set (map snd pairs). 0 \<le> c" using assms by simp
  have "\<not> double_overflow (of_int (snd nc) / of_int ?t)" if "nc \<in> set pairs" for nc
  proof (cases "sum_list (map snd pairs) = 0")
    case True
    from that have "snd nc \<in> set (map snd pairs)" by simp
    from zero_total_counts [OF all True this] show ?thesis
      by (simp add: double_overflow_def)
  next
    case False
    from that have mem: "snd nc \<in> set (map snd pairs)" by simp
    from count_le_total [OF all mem] have le: "snd nc \<le> ?t"
      using False by (simp add: total_usage_of_def)
    moreover have "0 \<le> snd nc" using assms that by simp
    moreover from this le False have "0 < ?t"
      using sum_list_nonneg [of "map snd pairs"] all by (simp add: total_usage_of_def less_le)
    ultimately show ?thesis by (intro ratio_no_overflow)
  qed
  then show ?thesis by (simp add: counts_fit_def list_all_iff)
qed

lemma percentages_sum_bound:
  fixes cs :: "int list"
  assumes "0 < t" "\<forall>c \<in> set cs. 0 \<le> c \<and> c \<le> t"
  shows "\<exists>s. sum_values (map (\<lambda>c. float_value (pct_of c t)) cs) = Some s
           \<and> \<bar>s - 100 * of_int (sum_list cs) / of_int t\<bar>
               \<le> (of_int (sum_list cs) / of_int t) / 2 ^ 45 + of_nat (length cs) * pow2 (- 1068)"
  using assms(2)
proof (induction cs)
  case Nil
  show ?case by simp
next
  case (Cons c cs)
  from Cons.prems have c: "0 \<le> c" "c \<le> t" and rest: "\<forall>c \<in> set cs. 0 \<le> c \<and> c \<le> t"
    by simp_all
  from pct_value_bound [OF c assms(1)] obtain v where
    v: "float_value (pct_of c t) = Some v"
    and verr: "\<bar>v - 100 * of_int c / of_int t\<bar> \<le> (of_int c / of_int t) / 2 ^ 45 + pow2 (- 1068)"
    by blast
  from Cons.IH [OF rest] obtain s where
    s: "sum_values (map (\<lambda>c. float_value (pct_of c t)) cs) = Some s"
    and serr: "\<bar>s - 100 * of_int (sum_list cs) / of_int t\<bar>
               \<le> (of_int (sum_list cs) / of_int t) / 2 ^ 45 + of_nat (length cs) * pow2 (- 1068)"
    by blast
  have split: "(v + s) - 100 * of_int (sum_list (c # cs)) / of_int t
      = (v - 100 * of_int c / of_int t) + (s - 100 * of_int (sum_list cs) / of_int t)"
    by (simp add: add_divide_distrib distrib_left)
  have "\<bar>(v + s) - 100 * of_int (sum_list (c # cs)) / of_int t\<bar>
      \<le> \<bar>v - 100 * of_int c / of_int t\<bar> + \<bar>s - 100 * of_int (sum_list cs) / of_int t\<bar>"
    unfolding split by (rule abs_triangle_ineq)
  also have "\<dots> \<le> ((of_int c / of_int t) / 2 ^ 45 + pow2 (- 1068))
      + ((of_int (sum_list cs) / of_int t) / 2 ^ 45 + of_nat (length cs) * pow2 (- 1068))"
    by (intro add_mono verr serr)
  also have "\<dots> = (of_int (sum_list (c # cs)) / of_int t) / 2 ^ 45
      + of_nat (length (c # cs)) * pow2 (- 1068)"
    by (simp add: add_divide_distrib distrib_right)
  finally show ?case using v s by simp
qed

lemma card_percentages_pairs:
  "card_rows dwg = map (row_of_pair t) pairs \<Longrightarrow>
   card_percentages dwg = map (\<lambda>c. float_value (pct_of c t)) (map snd pairs)"
  by (simp add: card_percentages_def row_of_pair_def comp_def)

subsection \<open>Example cards\<close>

lemma plain_runtime_lenient: "lenient plain_runtime = plain_runtime"
  by (simp add: lenient_def plain_runtime_def)

lemma plain_accepts:
  "library_accepts plain_runtime THEMES data theme_name custom_colors excluded_languages"
  by (simp add: library_accepts_def svg_accepts_def plain_runtime_def list_all_iff
      split: sum.splits)

lemma plain_folds: "folds_ascii plain_runtime"
  by (simp add: folds_ascii_def plain_runtime_def)

lemma sample_theme_complete: "theme_complete sample_THEMES ''Default'' None"
  by (simp add: theme_complete_def resolve_theme_def sample_THEMES_def theme_attributes_def)

lemma example_card_top:
  "py_get example_card_data ''top_languages'' (PList []) = Inr (lang_list example_pairs)"
  by (simp add: example_card_data_def)

lemma example_names_ascii: "list_all ascii_text (map fst example_pairs)"
  by code_simp

lemma example_fit: "counts_fit example_pairs"
  by (rule nonneg_counts_fit) (simp add: example_pairs_def)

lemma kept_example_python: "kept_pairs [''Python''] example_pairs = [(''Go'', 1)]"
  by code_simp

lemma kept_example_all: "kept_pairs [''PYTHON'', ''go''] example_pairs = []"
  by code_simp

lemma placeholder_fits: "counts_fit [(''No Data'', 0)]"
  by (simp add: counts_fit_def double_overflow_def)

lemma placeholder_zero:
  "float_value (pct_of 0 1) = Some 0 \<and> float_value (bar_of 0 1) = Some 0"
  by (simp add: pct_of_def bar_of_def)

lemma total_usage_placeholder: "total_usage_of [(''No Data'', 0)] = 1"
  by (simp add: total_usage_of_def)

text \<open>The error path of the library: with the fill \<open>transparent\<close> as a custom background
  colour, the strict library refuses the background rectangle and the renderer raises.\<close>

lemma refused_fill_raises:
  "theme_complete sample_THEMES ''Default'' (Some [(''bg_color'', PStr ''transparent'')])
   \<and> draw_lang_card strict_runtime sample_THEMES (PDict []) ''Default''
       (Some [(''bg_color'', PStr ''transparent'')]) None = Inl TypeError"
  by (simp add: theme_complete_def theme_attributes_def draw_lang_card_def
      resolve_theme_def sample_THEMES_def select_langs_def theme_item_def
      strict_runtime_def svg_add_def Let_def)

subsection \<open>The height of a card\<close>

text \<open>
  Claim C5. Whatever the language list, the theme and the exclusion list, a card that
  is rendered has the view box \<open>0 0 300 h\<close> with \<open>h = 50 + 35 * n\<close>, where \<open>n\<close> is the
  number of rows in the card. For a list of \<open>(name, count)\<close> pairs, \<open>n\<close> is the number of
  pairs whose name matches no excluded entry, letter case apart, or 1 when no pair
  remains and the placeholder is shown (names and excluded entries being ASCII text).
  The width is the constant 300.
\<close>

theorem card_height_is_affine_in_rows:
  assumes "draw_lang_card rt THEMES data theme_name custom_colors excluded_languages = Inr dwg"
  shows "viewBox dwg = ''0 0 300 '' @ str_int (50 + 35 * int (length (card_rows dwg)))
       \<and> (py_get data ''top_languages'' (PList []) = Inr (lang_list pairs)
            \<and> folds_ascii rt \<and> list_all ascii_text (map fst pairs)
            \<and> list_all ascii_text (exclusions excluded_languages)
          \<longrightarrow> length (card_rows dwg)
                = (if kept_pairs (exclusions excluded_languages) pairs = [] then 1
                   else length (kept_pairs (exclusions excluded_languages) pairs))
              \<and> viewBox dwg
                = ''0 0 300 '' @ str_int (50 + 35 *
                    (if kept_pairs (exclusions excluded_languages) pairs = [] then 1
                     else int (length (kept_pairs (exclusions excluded_languages) pairs)))))"
proof -
  from drawn_card_height [OF assms] obtain langs n where
    langs: "select_langs rt data excluded_languages = Inr langs"
    and n: "py_len langs = Inr n"
    and rows: "length (card_rows dwg) = n"
    and box: "viewBox dwg = ''0 0 300 '' @ str_int (50 + 35 * int n)"
    by blast
  have "length (card_rows dwg)
          = (if kept_pairs (exclusions excluded_languages) pairs = [] then 1
             else length (kept_pairs (exclusions excluded_languages) pairs))
        \<and> viewBox dwg
          = ''0 0 300 '' @ str_int (50 + 35 *
              (if kept_pairs (exclusions excluded_languages) pairs = [] then 1
               else int (length (kept_pairs (exclusions excluded_languages) pairs))))"
    if "py_get data ''top_languages'' (PList []) = Inr (lang_list pairs)
        \<and> folds_ascii rt \<and> list_all ascii_text (map fst pairs)
        \<and> list_all ascii_text (exclusions excluded_languages)"
  proof -
    from that select_langs_pairs [of data pairs rt excluded_languages] langs
    have "langs = lang_list (shown_pairs (exclusions excluded_languages) pairs)"
      by simp
    with n rows box show ?thesis
      by (auto simp: lang_list_def shown_pairs_def)
  qed
  with rows box show ?thesis by blast
qed

theorem card_height_is_affine_in_rows_witness:
  "(\<exists>dwg. draw_lang_card plain_runtime sample_THEMES example_card_data ''Default'' None None
            = Inr dwg
         \<and> length (card_rows dwg) = 2 \<and> viewBox dwg = ''0 0 300 120'')
   \<and> (\<exists>dwg. draw_lang_card plain_runtime sample_THEMES example_card_data ''Default'' None
              (Some [''Python'']) = Inr dwg
         \<and> length (card_rows dwg) = 1 \<and> viewBox dwg = ''0 0 300 85'')"
proof -
  have all: "select_langs plain_runtime example_card_data None = Inr (lang_list example_pairs)"
    using select_langs_unfiltered [OF example_card_top, of plain_runtime]
    by (simp add: shown_pairs_def example_pairs_def)
  from draw_lang_card_pairs [OF sample_theme_complete all example_fit plain_accepts]
  obtain dwg where
    drawn: "draw_lang_card plain_runtime sample_THEMES example_card_data ''Default'' None None
              = Inr dwg"
    by blast
  have "kept_pairs (exclusions None) example_pairs = example_pairs"
    by (simp add: exclusions_def)
  with card_height_is_affine_in_rows [OF drawn, of example_pairs] example_card_top
    plain_folds example_names_ascii
  have "length (card_rows dwg) = 2 \<and> viewBox dwg = ''0 0 300 120''"
    by (simp add: exclusions_def example_pairs_def str_int_120)
  with drawn have two: "\<exists>dwg.
      draw_lang_card plain_runtime sample_THEMES example_card_data ''Default'' None None = Inr dwg
      \<and> length (card_rows dwg) = 2 \<and> viewBox dwg = ''0 0 300 120''"
    by blast
  have entries: "list_all ascii_text (exclusions (Some [''Python'']))"
    by code_simp
  have kept: "kept_pairs (exclusions (Some [''Python''])) example_pairs = [(''Go'', 1)]"
    by (simp add: exclusions_def kept_example_python)
  have one: "select_langs plain_runtime example_card_data (Some [''Python''])
      = Inr (lang_list [(''Go'', 1)])"
    using select_langs_pairs [OF example_card_top plain_folds example_names_ascii entries] kept
    by (simp add: shown_pairs_def)
  have "counts_fit [(''Go'', 1)]"
    by (rule nonneg_counts_fit) simp
  from draw_lang_card_pairs [OF sample_theme_complete one this plain_accepts]
  obtain dwg' where
    drawn': "draw_lang_card plain_runtime sample_THEMES example_card_data ''Default'' None
               (Some [''Python'']) = Inr dwg'"
    by blast
  from card_height_is_affine_in_rows [OF drawn', of example_pairs] example_card_top
    plain_folds example_names_ascii entries kept
  have "length (card_rows dwg') = 1 \<and> viewBox dwg' = ''0 0 300 85''"
    by (simp add: str_int_85)
  with drawn' two show ?thesis by blast
qed

subsection \<open>Exclusion and the placeholder row\<close>

text \<open>
  Claim C6. For a language list of \<open>(name, count)\<close> pairs and an exclusion list, both of
  ASCII text, the rows of the card are the pairs whose name matches no excluded entry,
  letter case apart, in their order and each with its share of their total (so excluding
  \<open>Python\<close> removes \<open>python\<close>). When no pair remains, the card has the single row of the
  placeholder \<open>(No Data, 0)\<close>, and its percentage \<^verbatim>\<open>(0 / 1) * 100\<close> and its bar width are
  zero. The card is rendered when the theme has the seven attributes, no quotient is too
  large for a double, and the library accepts the card.
\<close>

theorem exclusion_is_case_insensitive:
  assumes top: "py_get data ''top_languages'' (PList []) = Inr (lang_list pairs)"
    and folds: "folds_ascii rt"
    and names: "list_all ascii_text (map fst pairs)"
    and entries: "list_all ascii_text excluded"
    and complete: "theme_complete THEMES theme_name custom_colors"
    and fit: "counts_fit (kept_pairs excluded pairs)"
    and accepted: "library_accepts rt THEMES data theme_name custom_colors (Some excluded)"
  shows "\<exists>dwg. draw_lang_card rt THEMES data theme_name custom_colors (Some excluded) = Inr dwg
       \<and> (kept_pairs excluded pairs \<noteq> [] \<longrightarrow>
            card_rows dwg = map (row_of_pair (total_usage_of (kept_pairs excluded pairs)))
                              (kept_pairs excluded pairs))
       \<and> (kept_pairs excluded pairs = [] \<longrightarrow>
            card_rows dwg = [(Content (PStr ''No Data''), pct_of 0 1, LenFloat (bar_of 0 1))]
            \<and> float_value (pct_of 0 1) = Some 0 \<and> float_value (bar_of 0 1) = Some 0)"
proof -
  let ?shown = "shown_pairs excluded pairs"
  from entries have "list_all ascii_text (exclusions (Some excluded))"
    by (simp add: exclusions_def)
  from select_langs_pairs [OF top folds names this]
  have selected: "select_langs rt data (Some excluded) = Inr (lang_list ?shown)"
    by (simp add: exclusions_def)
  from fit placeholder_fits have "counts_fit ?shown"
    by (simp add: shown_pairs_def)
  from draw_lang_card_pairs [OF complete selected this accepted] obtain dwg where
    drawn: "draw_lang_card rt THEMES data theme_name custom_colors (Some excluded) = Inr dwg"
    and rows: "card_rows dwg = map (row_of_pair (total_usage_of ?shown)) ?shown"
    by blast
  from rows have "kept_pairs excluded pairs \<noteq> [] \<longrightarrow>
      card_rows dwg = map (row_of_pair (total_usage_of (kept_pairs excluded pairs)))
                        (kept_pairs excluded pairs)"
    by (simp add: shown_pairs_def)
  moreover from rows have "kept_pairs excluded pairs = [] \<longrightarrow>
      card_rows dwg = [(Content (PStr ''No Data''), pct_of 0 1, LenFloat (bar_of 0 1))]"
    by (simp add: shown_pairs_def total_usage_placeholder row_of_pair_def)
  ultimately show ?thesis using drawn placeholder_zero by blast
qed

theorem exclusion_is_case_insensitive_witness:
  "ci_match ''python'' ''Python''
   \<and> kept_pairs [''Python''] example_pairs = [(''Go'', 1)]
   \<and> (\<exists>dwg. draw_lang_card plain_runtime sample_THEMES example_card_data ''Default'' None
               (Some [''Python'']) = Inr dwg
          \<and> card_rows dwg = [(Content (PStr ''Go''), pct_of 1 1, LenFloat (bar_of 1 1))])
   \<and> kept_pairs [''PYTHON'', ''go''] example_pairs = []
   \<and> (\<exists>dwg. draw_lang_card plain_runtime sample_THEMES example_card_data ''Default'' None
               (Some [''PYTHON'', ''go'']) = Inr dwg
          \<and> card_rows dwg = [(Content (PStr ''No Data''), pct_of 0 1, LenFloat (bar_of 0 1))])"
proof -
  have ci: "ci_match ''python'' ''Python''" by code_simp
  have python: "list_all ascii_text [''Python'']" by code_simp
  have both: "list_all ascii_text [''PYTHON'', ''go'']" by code_simp
  have fit: "counts_fit (kept_pairs [''Python''] example_pairs)"
    unfolding kept_example_python by (rule nonneg_counts_fit) simp
  have fit0: "counts_fit (kept_pairs [''PYTHON'', ''go''] example_pairs)"
    unfolding kept_example_all by (simp add: counts_fit_def)
  from exclusion_is_case_insensitive [OF example_card_top plain_folds example_names_ascii
      python sample_theme_complete fit plain_accepts]
  have one: "\<exists>dwg. draw_lang_card plain_runtime sample_THEMES example_card_data ''Default'' None
               (Some [''Python'']) = Inr dwg
          \<and> card_rows dwg = [(Content (PStr ''Go''), pct_of 1 1, LenFloat (bar_of 1 1))]"
    by (simp add: kept_example_python total_usage_of_def row_of_pair_def)
  from exclusion_is_case_insensitive [OF example_card_top plain_folds example_names_ascii
      both sample_theme_complete fit0 plain_accepts]
  have none: "\<exists>dwg. draw_lang_card plain_runtime sample_THEMES example_card_data ''Default'' None
               (Some [''PYTHON'', ''go'']) = Inr dwg
          \<and> card_rows dwg = [(Content (PStr ''No Data''), pct_of 0 1, LenFloat (bar_of 0 1))]"
    by (auto simp: kept_example_all)
  from ci one none kept_example_python kept_example_all show ?thesis by simp
qed

text \<open>
  Claim C10. When the language list of the input is empty (or the key is missing), the
  card has the single placeholder row \<open>(No Data, 0)\<close> at zero percent and the height 85,
  whatever the exclusion list, also when none is supplied. The card is rendered when the
  theme has the seven attributes and the library accepts the card.
\<close>

theorem placeholder_for_empty_language_list:
  assumes "theme_complete THEMES theme_name custom_colors"
    and "py_get data ''top_languages'' (PList []) = Inr (PList [])"
    and "library_accepts rt THEMES data theme_name custom_colors excluded_languages"
  shows "\<exists>dwg pct bar.
           draw_lang_card rt THEMES data theme_name custom_colors excluded_languages = Inr dwg
           \<and> viewBox dwg = ''0 0 300 85''
           \<and> card_rows dwg = [(Content (PStr ''No Data''), pct, LenFloat bar)]
           \<and> pct = pct_of 0 1 \<and> float_value pct = Some 0 \<and> float_value bar = Some 0"
proof -
  note selected = select_langs_empty [OF assms(2), of rt excluded_languages]
  from draw_lang_card_pairs [OF assms(1) selected placeholder_fits assms(3)] obtain dwg where
    "draw_lang_card rt THEMES data theme_name custom_colors excluded_languages = Inr dwg"
    "viewBox dwg = ''0 0 300 '' @ str_int (50 + 35 * int (length [(''No Data'', 0::int)]))"
    "card_rows dwg = map (row_of_pair (total_usage_of [(''No Data'', 0)])) [(''No Data'', 0)]"
    by blast
  then show ?thesis
    using placeholder_zero by (auto simp: total_usage_placeholder str_int_85 row_of_pair_def)
qed

theorem placeholder_for_empty_language_list_witness:
  "theme_complete sample_THEMES ''Default'' None
   \<and> py_get (PDict []) ''top_languages'' (PList []) = Inr (PList [])
   \<and> library_accepts plain_runtime sample_THEMES (PDict []) ''Default'' None None
   \<and> (\<exists>dwg. draw_lang_card plain_runtime sample_THEMES (PDict []) ''Default'' None None = Inr dwg
          \<and> viewBox dwg = ''0 0 300 85''
          \<and> (\<exists>bar. card_rows dwg = [(Content (PStr ''No Data''), pct_of 0 1, LenFloat bar)]))"
proof -
  have empty: "py_get (PDict []) ''top_languages'' (PList []) = Inr (PList [])" by simp
  from placeholder_for_empty_language_list [OF sample_theme_complete empty plain_accepts]
  show ?thesis using sample_theme_complete empty plain_accepts by blast
qed

subsection \<open>Records of the fetcher as input\<close>

lemma sum_counts_entries:
  "tops \<noteq> [] \<Longrightarrow> sum_counts (map lang_entry tops) acc = Inl TypeError"
  by (cases tops) (simp_all add: lang_entry_def unpack2_def)

lemma draw_fetched_fails:
  assumes "fetch_github_stats net username = Some profile"
    and "py_getitem profile ''top_languages'' \<noteq> Inr (PList [])"
  shows "isl (draw_lang_card rt THEMES profile theme_name custom_colors None)"
proof (cases "draw_lang_card rt THEMES profile theme_name custom_colors None")
  case (Inl e)
  then show ?thesis by simp
next
  case (Inr dwg)
  from fetch_github_stats_top [OF assms(1)] obtain c where
    top: "py_getitem profile ''top_languages'' = Inr (PList (map lang_entry (most_common 5 c)))"
    by blast
  with assms(2) have ne: "most_common 5 c \<noteq> []" by auto
  from top have get: "py_get profile ''top_languages'' (PList [])
      = Inr (PList (map lang_entry (most_common 5 c)))"
    by (cases profile) (auto split: option.splits)
  from get ne have selected:
    "select_langs rt profile None = Inr (PList (map lang_entry (most_common 5 c)))"
    by (simp add: select_langs_def)
  from Inr obtain langs items total where
    "select_langs rt profile None = Inr langs" "py_iter langs = Inr items"
    "sum_counts items 0 = Inr total"
    by (auto simp: draw_lang_card_def ebind_eq_Inr Let_def)
  with selected sum_counts_entries [OF ne, of 0] show ?thesis by simp
qed

text \<open>
  Claim C1 says that every record of the Stats Fetcher can be given to the renderer as
  it is. The fetcher stores each language as a dict with the keys \<open>name\<close> and \<open>count\<close>;
  the renderer unpacks each entry as a pair, which for a dict gives its two keys, and
  then adds the string \<open>count\<close> to the integer total. For the record of the example the
  renderer raises TypeError; whatever the library accepts, it returns no card. It does so
  for every fetched record with a language.
\<close>

theorem fetched_record_breaks_renderer:
  "fetch_github_stats example_net ''octo'' = Some example_profile
   \<and> draw_lang_card plain_runtime sample_THEMES example_profile ''Default'' None None
       = Inl TypeError
   \<and> (\<forall>rt. isl (draw_lang_card rt sample_THEMES example_profile ''Default'' None None))"
proof -
  have "draw_lang_card plain_runtime sample_THEMES example_profile ''Default'' None None
      = Inl TypeError"
    by (simp add: draw_lang_card_def resolve_theme_def sample_THEMES_def select_langs_def
      example_profile_def theme_item_def unpack2_def plain_runtime_def svg_add_def Let_def)
  moreover have "py_getitem example_profile ''top_languages'' \<noteq> Inr (PList [])"
    by (simp add: example_profile_def)
  ultimately show ?thesis
    using example_fetch draw_fetched_fails [OF example_fetch] by simp
qed

subsection \<open>The sum of the percentages\<close>

text \<open>
  Claim C7, amended. For a drawn language list with non-negative counts, the percentage
  of each row is the double \<^verbatim>\<open>(count / total_usage) * 100\<close>, where the divisor is the sum
  of the counts, or 1 when that sum is 0. When the sum is positive the percentages add
  up to 100 up to rounding: their exact sum differs from 100 by at most
  \<open>2 ^ - 45 + n * 2 ^ - 1068\<close> for \<open>n\<close> rows. When the sum is 0 every percentage is 0. The
  card is drawn in both cases when the theme has the seven attributes and the library
  accepts the card, so no division by zero occurs.
\<close>

theorem percentages_sum_to_100_within_rounding:
  assumes complete: "theme_complete THEMES theme_name custom_colors"
    and selected: "select_langs rt data excluded_languages = Inr (lang_list pairs)"
    and nonneg: "\<forall>nc \<in> set pairs. 0 \<le> snd nc"
    and accepted: "library_accepts rt THEMES data theme_name custom_colors excluded_languages"
  shows "\<exists>dwg. draw_lang_card rt THEMES data theme_name custom_colors excluded_languages = Inr dwg
       \<and> card_rows dwg = map (row_of_pair (total_usage_of pairs)) pairs
       \<and> (0 < sum_list (map snd pairs) \<longrightarrow>
            total_usage_of pairs = sum_list (map snd pairs)
            \<and> (\<exists>s. percentage_sum (Inr dwg) = Some s
                 \<and> \<bar>s - 100\<bar> \<le> 1 / 2 ^ 45 + of_nat (length pairs) * pow2 (- 1068)))
       \<and> (sum_list (map snd pairs) = 0 \<longrightarrow>
            total_usage_of pairs = 1 \<and> (\<forall>v \<in> set (card_percentages dwg). v = Some 0))"
proof -
  let ?t = "total_usage_of pairs"
  let ?cs = "map snd pairs"
  have all: "\<forall>c \<in> set ?cs. 0 \<le> c" using nonneg by simp
  from draw_lang_card_pairs [OF complete selected nonneg_counts_fit [OF nonneg] accepted]
  obtain dwg where
    drawn: "draw_lang_card rt THEMES data theme_name custom_colors excluded_languages = Inr dwg"
    and rows: "card_rows dwg = map (row_of_pair ?t) pairs"
    by blast
  note pcts = card_percentages_pairs [OF rows]
  have positive: "?t = sum_list ?cs
      \<and> (\<exists>s. percentage_sum (Inr dwg) = Some s
            \<and> \<bar>s - 100\<bar> \<le> 1 / 2 ^ 45 + of_nat (length pairs) * pow2 (- 1068))"
    if pos: "0 < sum_list ?cs"
  proof -
    from pos have t: "?t = sum_list ?cs" by (simp add: total_usage_of_def)
    with pos have tpos: "0 < ?t" by simp
    have bounded: "\<forall>c \<in> set ?cs. 0 \<le> c \<and> c \<le> ?t"
      using all count_le_total [OF all] t by auto
    from percentages_sum_bound [OF tpos bounded] obtain s where
      s: "sum_values (map (\<lambda>c. float_value (pct_of c ?t)) ?cs) = Some s"
      and err: "\<bar>s - 100 * of_int (sum_list ?cs) / of_int ?t\<bar>
          \<le> (of_int (sum_list ?cs) / of_int ?t) / 2 ^ 45 + of_nat (length ?cs) * pow2 (- 1068)"
      by blast
    from tpos have "(of_int (sum_list ?cs) :: rat) / of_int ?t = 1"
      by (simp add: t [symmetric])
    with err have "\<bar>s - 100\<bar> \<le> 1 / 2 ^ 45 + of_nat (length pairs) * pow2 (- 1068)"
      by simp
    with s pcts t show ?thesis by (simp add: percentage_sum_def)
  qed
  have zero: "?t = 1 \<and> (\<forall>v \<in> set (card_percentages dwg). v = Some 0)"
    if z: "sum_list ?cs = 0"
  proof -
    from z have t: "?t = 1" by (simp add: total_usage_of_def)
    have "float_value (pct_of c 1) = Some 0" if "c \<in> set ?cs" for c
      using zero_total_counts [OF all z that] by (simp add: float_value_pct_zero)
    with pcts t show ?thesis by auto
  qed
  from drawn rows positive zero show ?thesis by blast
qed

lemma select_thirds: "select_langs rt thirds_data None = Inr (lang_list thirds)"
proof -
  have "py_get thirds_data ''top_languages'' (PList []) = Inr (lang_list thirds)"
    by (simp add: thirds_data_def)
  from select_langs_unfiltered [OF this, of rt] show ?thesis
    by (simp add: shown_pairs_def thirds_def)
qed

text \<open>
  Claim C7 as stated says that the percentages sum to exactly 100 when the total is
  positive. For three languages with one repository each, every percentage is the
  double nearest to \<open>100 * fl(1 / 3)\<close>, which is \<open>2345624805922133 / 2 ^ 46\<close>, and the three
  add up to \<open>100 - 2 ^ - 46\<close>.
\<close>

theorem percentages_of_thirds_miss_100:
  "percentage_sum (draw_lang_card plain_runtime sample_THEMES thirds_data ''Default'' None None)
     = Some (100 - 1 / 2 ^ 46)
   \<and> percentage_sum (draw_lang_card plain_runtime sample_THEMES thirds_data ''Default'' None None) \<noteq> Some 100"
proof -
  have nonneg: "\<forall>nc \<in> set thirds. 0 \<le> snd nc" by (simp add: thirds_def)
  from draw_lang_card_pairs [OF sample_theme_complete select_thirds nonneg_counts_fit [OF nonneg]
      plain_accepts]
  obtain dwg where
    drawn: "draw_lang_card plain_runtime sample_THEMES thirds_data ''Default'' None None = Inr dwg"
    and rows: "card_rows dwg = map (row_of_pair (total_usage_of thirds)) thirds"
    by blast
  have "total_usage_of thirds = 3" by (simp add: total_usage_of_def thirds_def)
  with card_percentages_pairs [OF rows]
  have "card_percentages dwg = [Some (2345624805922133 / 70368744177664),
      Some (2345624805922133 / 70368744177664), Some (2345624805922133 / 70368744177664)]"
    by (simp add: thirds_def pct_third)
  then have "percentage_sum (Inr dwg) = Some (100 - 1 / 2 ^ 46)"
    by (simp add: percentage_sum_def)
  with drawn show ?thesis by simp
qed

theorem percentages_sum_to_100_within_rounding_witness:
  "theme_complete sample_THEMES ''Default'' None
   \<and> select_langs plain_runtime example_card_data None = Inr (lang_list example_pairs)
   \<and> list_all (\<lambda>nc. 0 \<le> snd nc) example_pairs
   \<and> 0 < sum_list (map snd example_pairs)
   \<and> (\<exists>dwg s. draw_lang_card plain_runtime sample_THEMES example_card_data ''Default'' None None = Inr dwg
          \<and> percentage_sum (Inr dwg) = Some s
          \<and> \<bar>s - 100\<bar> \<le> 1 / 2 ^ 45 + 2 * pow2 (- 1068))
   \<and> select_langs plain_runtime (PDict []) None = Inr (lang_list [(''No Data'', 0)])
   \<and> sum_list (map snd [(''No Data'', 0::int)]) = 0
   \<and> (\<exists>dwg. draw_lang_card plain_runtime sample_THEMES (PDict []) ''Default'' None None = Inr dwg
          \<and> card_percentages dwg = [Some 0])"
proof -
  have selected: "select_langs plain_runtime example_card_data None = Inr (lang_list example_pairs)"
    using select_langs_unfiltered [OF example_card_top, of plain_runtime]
    by (simp add: shown_pairs_def example_pairs_def)
  have nonneg: "\<forall>nc \<in> set example_pairs. 0 \<le> snd nc"
    by (simp add: example_pairs_def)
  have pos: "0 < sum_list (map snd example_pairs)"
    by (simp add: example_pairs_def)
  from percentages_sum_to_100_within_rounding [OF sample_theme_complete selected nonneg
      plain_accepts] pos
  have one: "\<exists>dwg s. draw_lang_card plain_runtime sample_THEMES example_card_data ''Default'' None None = Inr dwg
          \<and> percentage_sum (Inr dwg) = Some s
          \<and> \<bar>s - 100\<bar> \<le> 1 / 2 ^ 45 + 2 * pow2 (- 1068)"
    by (auto simp: example_pairs_def)
  have empty: "select_langs plain_runtime (PDict []) None = Inr (lang_list [(''No Data'', 0)])"
    by (simp add: select_langs_def lang_list_def lang_pair_def)
  have nonneg0: "\<forall>nc \<in> set [(''No Data'', 0::int)]. 0 \<le> snd nc" by simp
  from percentages_sum_to_100_within_rounding [OF sample_theme_complete empty nonneg0
      plain_accepts]
  obtain dwg where
    drawn: "draw_lang_card plain_runtime sample_THEMES (PDict []) ''Default'' None None = Inr dwg"
    and rows: "card_rows dwg = map (row_of_pair (total_usage_of [(''No Data'', 0)])) [(''No Data'', 0)]"
    and zero: "\<forall>v \<in> set (card_percentages dwg). v = Some 0"
    by auto
  from rows have "length (card_percentages dwg) = 1"
    by (simp add: card_percentages_def)
  with zero have "card_percentages dwg = [Some 0]"
    by (cases "card_percentages dwg") auto
  with drawn have two: "\<exists>dwg. draw_lang_card plain_runtime sample_THEMES (PDict []) ''Default'' None None = Inr dwg
          \<and> card_percentages dwg = [Some 0]"
    by blast
  from sample_theme_complete selected nonneg pos one empty two show ?thesis
    by (simp add: list_all_iff)
qed

section \<open>Properties of the Roast Widget\<close>

text \<open>
  Claim C9. In the generate action, when the fetch returns nothing, or the fetch
  raises, or the roast generation raises, one error message is shown and the cached
  \<open>roast_data\<close> is what it was before the action; and whenever the action changes the
  cached \<open>roast_data\<close>, the fetch has returned a record and the roast generation has
  returned.
\<close>

theorem generate_failure_keeps_cached_record:
  "(fetch username = Inr None \<longrightarrow>
      generate_clicked fetch generate_profile_roast username st
        = st\<lparr>shown := shown st @ [FetchFailed]\<rparr>)
   \<and> (\<forall>e. fetch username = Inl e \<longrightarrow>
      generate_clicked fetch generate_profile_roast username st
        = st\<lparr>shown := shown st @ [GenerationError e]\<rparr>)
   \<and> (\<forall>profile_data e.
        fetch username = Inr (Some profile_data) \<and> generate_profile_roast profile_data = Inl e
        \<longrightarrow> roast_data (generate_clicked fetch generate_profile_roast username st) = roast_data st
          \<and> (\<exists>message. shown (generate_clicked fetch generate_profile_roast username st)
                = shown st @ [message]))
   \<and> (roast_data (generate_clicked fetch generate_profile_roast username st) \<noteq> roast_data st
        \<longrightarrow> (\<exists>profile_data roast_result.
              fetch username = Inr (Some profile_data)
              \<and> generate_profile_roast profile_data = Inr roast_result))"
proof -
  let ?st' = "generate_clicked fetch generate_profile_roast username st"
  have absent: "fetch username = Inr None \<longrightarrow> ?st' = st\<lparr>shown := shown st @ [FetchFailed]\<rparr>"
    by (simp add: generate_clicked_def)
  have raised: "\<forall>e. fetch username = Inl e \<longrightarrow> ?st' = st\<lparr>shown := shown st @ [GenerationError e]\<rparr>"
    by (simp add: generate_clicked_def)
  have roast: "\<forall>profile_data e.
        fetch username = Inr (Some profile_data) \<and> generate_profile_roast profile_data = Inl e
        \<longrightarrow> roast_data ?st' = roast_data st \<and> (\<exists>message. shown ?st' = shown st @ [message])"
    by (auto simp: generate_clicked_def generate_body_def)
  have replaced: "roast_data ?st' \<noteq> roast_data st
        \<longrightarrow> (\<exists>profile_data roast_result.
              fetch username = Inr (Some profile_data)
              \<and> generate_profile_roast profile_data = Inr roast_result)"
    by (auto simp: generate_clicked_def generate_body_def ebind_eq_Inr
        split: sum.splits option.splits if_splits)
  from absent raised roast replaced show ?thesis by blast
qed

theorem generate_failure_keeps_cached_record_witness:
  "fetch_github_stats example_net ''nobody'' = None
   \<and> render_roast_widget example_net canned_roast ''nobody'' True cached_session
       = cached_session\<lparr>shown := [FetchFailed]\<rparr>
   \<and> failing_roast example_profile = Inl RequestException
   \<and> roast_data (render_roast_widget example_net failing_roast ''octo'' True cached_session)
       = roast_data cached_session
   \<and> roast_data (render_roast_widget example_net canned_roast ''octo'' True cached_session)
       \<noteq> roast_data cached_session"
proof -
  have init: "init_session cached_session = cached_session"
    by (simp add: init_session_def cached_session_def)
  have nobody: "fetch_github_stats example_net ''nobody'' = None"
    by (simp add: fetch_github_stats_def fetch_body_def example_net_def GITHUB_API_BASE_def)
  have failing: "failing_roast example_profile = Inl RequestException"
    by (simp add: failing_roast_def)
  have shown: "shown cached_session = []"
    by (simp add: cached_session_def)
  from generate_failure_keeps_cached_record
    [of "\<lambda>u. Inr (fetch_github_stats example_net u)" "''nobody''" canned_roast cached_session]
    nobody init shown
  have one: "render_roast_widget example_net canned_roast ''nobody'' True cached_session
       = cached_session\<lparr>shown := [FetchFailed]\<rparr>"
    by (simp add: render_roast_widget_def)
  from generate_failure_keeps_cached_record
    [of "\<lambda>u. Inr (fetch_github_stats example_net u)" "''octo''" failing_roast cached_session]
    example_fetch failing init
  have two: "roast_data (render_roast_widget example_net failing_roast ''octo'' True cached_session)
       = roast_data cached_session"
    by (simp add: render_roast_widget_def)
  have three: "roast_data (render_roast_widget example_net canned_roast ''octo'' True cached_session)
       \<noteq> roast_data cached_session"
    by (simp add: render_roast_widget_def init generate_clicked_def example_fetch
        generate_body_def canned_roast_def)
      (simp add: cached_session_def example_profile_def)
  from nobody one failing two three show ?thesis by simp
qed

end
